theory Spec2Isabelle
  imports
    Complex_Main
    "HOL-Library.Word"
    "HOL-Library.Char_ord"
    "HOL-Library.List_Lexorder"
    "HOL-Library.Multiset"
begin

section \<open>ETCI 2021 dataset: file discovery and sample assembly\<close>

text \<open>
  A shallow embedding of \<^verbatim>\<open>torchgeo/datasets/etci2021.py\<close> (class \<^verbatim>\<open>ETCI2021\<close>).
  Paths are Python \<^verbatim>\<open>str\<close> values, held as \<^typ>\<open>string\<close>; \<^verbatim>\<open>sorted\<close> on them is
  the lexicographic order of lists over the order of characters.
\<close>

subsection \<open>Python exceptions\<close>

text \<open>
  \<open>AssertionError\<close>: the \<^verbatim>\<open>assert\<close> of \<^verbatim>\<open>__init__\<close>.
  \<open>DatasetNotFoundError\<close>: raised by \<^verbatim>\<open>__init__\<close>.
  \<open>IndexError\<close>, \<open>KeyError\<close>: list and dict subscripts.
  \<open>DecodeFailure\<close>: any exception of \<^verbatim>\<open>Image.open(...)\<close>, \<^verbatim>\<open>convert\<close> or \<^verbatim>\<open>np.array\<close>
  (a missing or unreadable file).
  \<open>RuntimeError\<close>: raised by \<^verbatim>\<open>torch.cat\<close>, \<^verbatim>\<open>torch.stack\<close> and \<^verbatim>\<open>permute\<close> on
  tensors whose shapes do not fit.
  \<open>FetchError\<close>: any exception of \<^verbatim>\<open>download_and_extract_archive\<close>.
\<close>

datatype error =
    AssertionError
  | DatasetNotFoundError
  | IndexError
  | KeyError
  | DecodeFailure
  | RuntimeError
  | FetchError

definition bind_err :: "error + 'a \<Rightarrow> ('a \<Rightarrow> error + 'b) \<Rightarrow> error + 'b" where
  "bind_err r f = (case r of Inl e \<Rightarrow> Inl e | Inr x \<Rightarrow> f x)"

subsection \<open>Strings and paths\<close>

text \<open>
  \<^verbatim>\<open>str.replace(old, new)\<close>: every non-overlapping occurrence of \<open>old\<close>, found from left
  to right, is replaced by \<open>new\<close>. (With an empty \<open>old\<close>, \<open>new\<close> is put before every
  character and at the end.)
\<close>

function replace :: "string \<Rightarrow> string \<Rightarrow> string \<Rightarrow> string" where
  "replace old new [] = (if old = [] then new else [])"
| "replace old new (c # cs) =
     (if old = [] then new @ c # replace old new cs
      else if take (length old) (c # cs) = old
        then new @ replace old new (drop (length old) (c # cs))
        else c # replace old new cs)"
  by pat_completeness auto
termination
  by (relation "measure (\<lambda>(old, new, s). length s)") (auto simp: Suc_le_eq)

text \<open>
  The reading of the specification: only the first occurrence of \<open>old\<close> is replaced.
  It is kept apart from \<^const>\<open>replace\<close>, which is what the source calls.
\<close>

fun replace_first :: "string \<Rightarrow> string \<Rightarrow> string \<Rightarrow> string" where
  "replace_first old new [] = (if old = [] then new else [])"
| "replace_first old new (c # cs) =
     (if take (length old) (c # cs) = old
        then new @ drop (length old) (c # cs)
        else c # replace_first old new cs)"

text \<open>
  \<^verbatim>\<open>os.path.join(a, *p)\<close> of \<^verbatim>\<open>posixpath\<close>: a component that starts with the separator
  discards what came before it; a separator is put between two components unless the
  path so far is empty or already ends with one.
\<close>

definition join_step :: "string \<Rightarrow> string \<Rightarrow> string" where
  "join_step path b =
     (if take 1 b = ''/'' then b
      else if path = [] \<or> last path = CHR ''/'' then path @ b
      else path @ ''/'' @ b)"

definition os_path_join :: "string \<Rightarrow> string list \<Rightarrow> string" where
  "os_path_join a p = foldl join_step a p"

subsection \<open>The split table\<close>

record split_meta =
  filename :: string
  md5 :: string
  directory :: string
  url :: string

text \<open>The class attribute \<^verbatim>\<open>metadata\<close>, a dict from the split's name.\<close>

definition metadata :: "string \<rightharpoonup> split_meta" where
  "metadata = map_of
     [(''train'',
         \<lparr>filename = ''train.zip'',
          md5 = ''1e95792fe0f6e3c9000abdeab2a8ab0f'',
          directory = ''train'',
          url = ''https://drive.google.com/file/d/14HqNW5uWLS92n7KrxKgDwUTsSEST6LCr''\<rparr>),
      (''val'',
         \<lparr>filename = ''val_with_ref_labels.zip'',
          md5 = ''fd18cecb318efc69f8319f90c3771bdf'',
          directory = ''test'',
          url = ''https://drive.google.com/file/d/19sriKPHCZLfJn_Jmk3Z_0b3VaCBVRVyn''\<rparr>),
      (''test'',
         \<lparr>filename = ''test_without_ref_labels.zip'',
          md5 = ''da9fa69e1498bd49d5c766338c6dac3d'',
          directory = ''test_internal'',
          url = ''https://drive.google.com/file/d/1rpMVluASnSHBfm2FhpPDio0GyCPOqg7E''\<rparr>)]"

subsection \<open>The file system and the image decoder\<close>

text \<open>
  What PIL hands back: \<^verbatim>\<open>img.convert('RGB')\<close> is an image of some height and width with
  three 8-bit values per pixel, \<^verbatim>\<open>img.convert('L')\<close> one 8-bit value per pixel.
\<close>

record rgb_image =
  rgb_height :: nat
  rgb_width :: nat
  rgb_pixel :: "nat \<Rightarrow> nat \<Rightarrow> 8 word \<times> 8 word \<times> 8 word"

record grey_image =
  grey_height :: nat
  grey_width :: nat
  grey_pixel :: "nat \<Rightarrow> nat \<Rightarrow> 8 word"

text \<open>
  The file system as the module sees it, one field per library call:
  \<^verbatim>\<open>os.path.exists\<close>; \<^verbatim>\<open>glob.glob\<close>, whose result comes in the order of the operating
  system's directory listing; and \<^verbatim>\<open>Image.open(p)\<close> followed by \<^verbatim>\<open>convert\<close>, which is
  \<open>None\<close> where either raises.
\<close>

record fs =
  fs_exists :: "string \<Rightarrow> bool"
  fs_glob :: "string \<Rightarrow> string list"
  fs_read_rgb :: "string \<Rightarrow> rgb_image option"
  fs_read_grey :: "string \<Rightarrow> grey_image option"

text \<open>
  Construction acts on the world: the calls it makes are recorded, in order, in a trace.
\<close>

datatype event =
    Exists string
  | Glob string
  | Print string
  | Fetch string string string "string option"

record world =
  fsys :: fs
  trace :: "event list"

definition os_path_exists :: "world \<Rightarrow> string \<Rightarrow> bool \<times> world" where
  "os_path_exists w p = (fs_exists (fsys w) p, w\<lparr>trace := trace w @ [Exists p]\<rparr>)"

definition glob_glob :: "world \<Rightarrow> string \<Rightarrow> string list \<times> world" where
  "glob_glob w p = (fs_glob (fsys w) p, w\<lparr>trace := trace w @ [Glob p]\<rparr>)"

subsection \<open>File discovery: \<^verbatim>\<open>_load_files\<close>\<close>

text \<open>One entry of \<^verbatim>\<open>self.files\<close>: a dict from \<^verbatim>\<open>'vv'\<close>, \<^verbatim>\<open>'vh'\<close>, ... to a path.\<close>

type_synonym path_group = "string \<rightharpoonup> string"

definition water_mask_of :: "string \<Rightarrow> string" where
  "water_mask_of vv = replace ''vv'' ''water_body_label'' (replace ''_vv.png'' ''.png'' vv)"

definition flood_mask_of :: "string \<Rightarrow> string" where
  "flood_mask_of vv = replace ''vv'' ''flood_label'' (replace ''_vv.png'' ''.png'' vv)"

text \<open>The body of \<^verbatim>\<open>for folder in folders\<close>, with \<open>files\<close> the list built so far.\<close>

fun load_folders ::
  "string \<Rightarrow> string list \<Rightarrow> path_group list \<Rightarrow> world \<Rightarrow> path_group list \<times> world" where
  "load_folders split [] files w = (files, w)"
| "load_folders split (folder # folders) files w =
     (let (g, w1) = glob_glob w (os_path_join folder [''vv'', ''*.png'']);
          vvs = sort g;
          vhs = map (replace ''vv'' ''vh'') vvs;
          water_masks = map water_mask_of vvs
      in if split \<noteq> ''test'' then
           let flood_masks = map flood_mask_of vvs
           in load_folders split folders
                (files @ map (\<lambda>(vv, vh, flood_mask, water_mask).
                                [''vv'' \<mapsto> vv, ''vh'' \<mapsto> vh,
                                 ''flood_mask'' \<mapsto> flood_mask, ''water_mask'' \<mapsto> water_mask])
                           (zip vvs (zip vhs (zip flood_masks water_masks)))) w1
         else
           load_folders split folders
             (files @ map (\<lambda>(vv, vh, water_mask).
                             [''vv'' \<mapsto> vv, ''vh'' \<mapsto> vh, ''water_mask'' \<mapsto> water_mask])
                        (zip vvs (zip vhs water_masks))) w1)"

definition load_files :: "world \<Rightarrow> string \<Rightarrow> string \<Rightarrow> (error + path_group list) \<times> world" where
  "load_files w root_dir split =
     (case metadata split of
        None \<Rightarrow> (Inl KeyError, w)
      | Some m \<Rightarrow>
          let (g, w1) = glob_glob w (os_path_join root_dir [directory m, ''*'']);
              folders = sort g;
              folders = map (\<lambda>folder. os_path_join folder [''tiles'']) folders;
              (files, w2) = load_folders split folders [] w1
          in (Inr files, w2))"

subsection \<open>Arrays and tensors\<close>

text \<open>
  An array or tensor is its shape and its elements in row-major order; the element type
  stands for the dtype (\<^typ>\<open>8 word\<close> for \<^verbatim>\<open>uint8\<close>, \<^typ>\<open>real\<close> for \<^verbatim>\<open>float32\<close>, which holds
  every 8-bit value exactly, \<^typ>\<open>64 word\<close> for \<^verbatim>\<open>long\<close>).
\<close>

record 'a tensor =
  shape :: "nat list"
  elems :: "'a list"

definition tensor_map :: "('a \<Rightarrow> 'b) \<Rightarrow> 'a tensor \<Rightarrow> 'b tensor" where
  "tensor_map f t = \<lparr>shape = shape t, elems = map f (elems t)\<rparr>"

text \<open>\<^verbatim>\<open>np.array(img)\<close>: height by width by 3 for an RGB image, height by width for a grey one.\<close>

definition np_array_rgb :: "rgb_image \<Rightarrow> 8 word tensor" where
  "np_array_rgb img =
     \<lparr>shape = [rgb_height img, rgb_width img, 3],
      elems = concat (map (\<lambda>y. concat (map (\<lambda>x. case rgb_pixel img y x of (r, g, b) \<Rightarrow> [r, g, b])
                                             [0..<rgb_width img]))
                          [0..<rgb_height img])\<rparr>"

definition np_array_grey :: "grey_image \<Rightarrow> 8 word tensor" where
  "np_array_grey img =
     \<lparr>shape = [grey_height img, grey_width img],
      elems = concat (map (\<lambda>y. map (\<lambda>x. grey_pixel img y x) [0..<grey_width img])
                          [0..<grey_height img])\<rparr>"

text \<open>\<^verbatim>\<open>tensor.permute((2, 0, 1))\<close>: from HxWxC to CxHxW; an error unless there are three axes.\<close>

definition permute_2_0_1 :: "'a tensor \<Rightarrow> error + 'a tensor" where
  "permute_2_0_1 t =
     (case shape t of
        [h, w, c] \<Rightarrow>
          Inr \<lparr>shape = [c, h, w],
               elems = concat (map (\<lambda>k. concat (map (\<lambda>y. map (\<lambda>x. elems t ! ((y * w + x) * c + k))
                                                              [0..<w])
                                                   [0..<h]))
                                   [0..<c])\<rparr>
      | _ \<Rightarrow> Inl RuntimeError)"

text \<open>
  \<^verbatim>\<open>torch.cat(tensors, dim=0)\<close>: the tensors must agree on every axis but the first.
  \<^verbatim>\<open>torch.stack(tensors, dim=0)\<close>: the tensors must have one shape; a new first axis counts them.
\<close>

definition torch_cat :: "'a tensor list \<Rightarrow> error + 'a tensor" where
  "torch_cat ts =
     (case ts of
        [] \<Rightarrow> Inl RuntimeError
      | t # us \<Rightarrow>
          if list_all (\<lambda>u. shape u \<noteq> [] \<and> tl (shape u) = tl (shape t)) ts
          then Inr \<lparr>shape = sum_list (map (\<lambda>u. hd (shape u)) ts) # tl (shape t),
                    elems = concat (map elems ts)\<rparr>
          else Inl RuntimeError)"

definition torch_stack :: "'a tensor list \<Rightarrow> error + 'a tensor" where
  "torch_stack ts =
     (case ts of
        [] \<Rightarrow> Inl RuntimeError
      | t # us \<Rightarrow>
          if list_all (\<lambda>u. shape u = shape t) us
          then Inr \<lparr>shape = length ts # shape t, elems = concat (map elems ts)\<rparr>
          else Inl RuntimeError)"

definition unsqueeze_0 :: "'a tensor \<Rightarrow> 'a tensor" where
  "unsqueeze_0 t = \<lparr>shape = 1 # shape t, elems = elems t\<rparr>"

text \<open>\<^verbatim>\<open>torch.clamp(tensor, min=lo, max=hi)\<close>, elementwise \<open>min (max x lo) hi\<close> in the tensor's dtype.\<close>

definition clamp :: "8 word \<Rightarrow> 8 word \<Rightarrow> 8 word \<Rightarrow> 8 word" where
  "clamp lo hi x = min (max x lo) hi"

definition torch_clamp :: "8 word tensor \<Rightarrow> 8 word \<Rightarrow> 8 word \<Rightarrow> 8 word tensor" where
  "torch_clamp t lo hi = tensor_map (clamp lo hi) t"

subsection \<open>Decoding: \<^verbatim>\<open>_load_image\<close> and \<^verbatim>\<open>_load_target\<close>\<close>

definition load_image :: "fs \<Rightarrow> string \<Rightarrow> error + real tensor" where
  "load_image f path =
     (let filename = os_path_join path []
      in case fs_read_rgb f filename of
           None \<Rightarrow> Inl DecodeFailure
         | Some img \<Rightarrow>
             let array = np_array_rgb img;
                 tensor = tensor_map (\<lambda>v. real (unat v)) array
             in permute_2_0_1 tensor)"

text \<open>The label of one mask pixel: clamped to \<open>[0, 1]\<close> as \<^verbatim>\<open>uint8\<close>, then cast to \<^verbatim>\<open>long\<close>.\<close>

definition target_label :: "8 word \<Rightarrow> 64 word" where
  "target_label v = ucast (clamp 0 1 v)"

definition load_target :: "fs \<Rightarrow> string \<Rightarrow> error + 64 word tensor" where
  "load_target f path =
     (let filename = os_path_join path []
      in case fs_read_grey f filename of
           None \<Rightarrow> Inl DecodeFailure
         | Some img \<Rightarrow>
             let array = np_array_grey img;
                 tensor = torch_clamp array 0 1;
                 tensor = tensor_map ucast tensor
             in Inr tensor)"

subsection \<open>The dataset\<close>

text \<open>A sample is a dict from \<^verbatim>\<open>'image'\<close> and \<^verbatim>\<open>'mask'\<close> to a tensor of some dtype.\<close>

datatype tval = FloatTensor "real tensor" | LongTensor "64 word tensor"

type_synonym sample = "string \<rightharpoonup> tval"

text \<open>
  The transform hook is a callable of the caller: it is run on a sample and returns one.
  What else a call does is held in a state \<open>'h\<close> of the hook, passed in and returned, so
  that the number of calls shows.
\<close>

type_synonym 'h hook = "'h \<Rightarrow> sample \<Rightarrow> sample \<times> 'h"

record 'h dataset =
  self_root :: string
  self_split :: string
  self_transforms :: "'h hook option"
  self_checksum :: bool
  self_files :: "path_group list"

text \<open>Subscripts: \<^verbatim>\<open>xs[i]\<close> on a list, where a negative \<open>i\<close> counts from the end, and \<^verbatim>\<open>d[k]\<close> on a dict.\<close>

definition list_getitem :: "'a list \<Rightarrow> int \<Rightarrow> error + 'a" where
  "list_getitem xs i =
     (let n = int (length xs);
          j = (if i < 0 then i + n else i)
      in if 0 \<le> j \<and> j < n then Inr (xs ! nat j) else Inl IndexError)"

definition dict_getitem :: "('k \<rightharpoonup> 'v) \<Rightarrow> 'k \<Rightarrow> error + 'v" where
  "dict_getitem d k = (case d k of None \<Rightarrow> Inl KeyError | Some v \<Rightarrow> Inr v)"

text \<open>\<^verbatim>\<open>__len__\<close>\<close>

definition len :: "'h dataset \<Rightarrow> int" where
  "len self = int (length (self_files self))"

text \<open>
  \<^verbatim>\<open>__getitem__\<close>, up to the sample it builds. The files are read in the order \<open>vv\<close>,
  \<open>vh\<close>, \<open>water_mask\<close>, \<open>flood_mask\<close>; the masks are stacked before the bands are concatenated.
\<close>

definition getitem_sample :: "fs \<Rightarrow> 'h dataset \<Rightarrow> int \<Rightarrow> error + sample" where
  "getitem_sample f self index =
     bind_err (list_getitem (self_files self) index) (\<lambda>files.
     bind_err (dict_getitem files ''vv'') (\<lambda>p_vv.
     bind_err (load_image f p_vv) (\<lambda>vv.
     bind_err (dict_getitem files ''vh'') (\<lambda>p_vh.
     bind_err (load_image f p_vh) (\<lambda>vh.
     bind_err (dict_getitem files ''water_mask'') (\<lambda>p_water.
     bind_err (load_target f p_water) (\<lambda>water_mask.
     bind_err
       (if self_split self \<noteq> ''test'' then
          bind_err (dict_getitem files ''flood_mask'') (\<lambda>p_flood.
          bind_err (load_target f p_flood) (\<lambda>flood_mask.
          torch_stack [water_mask, flood_mask]))
        else Inr (unsqueeze_0 water_mask)) (\<lambda>mask.
     bind_err (torch_cat [vv, vh]) (\<lambda>image.
     Inr [''image'' \<mapsto> FloatTensor image, ''mask'' \<mapsto> LongTensor mask])))))))))"

text \<open>\<^verbatim>\<open>__getitem__\<close>: the sample, handed to the hook if there is one.\<close>

definition getitem :: "fs \<Rightarrow> 'h dataset \<Rightarrow> 'h \<Rightarrow> int \<Rightarrow> (error + sample) \<times> 'h" where
  "getitem f self h index =
     (case getitem_sample f self index of
        Inl e \<Rightarrow> (Inl e, h)
      | Inr sample \<Rightarrow>
          (case self_transforms self of
             None \<Rightarrow> (Inr sample, h)
           | Some t \<Rightarrow> (let (sample', h') = t h sample in (Inr sample', h'))))"

subsection \<open>Construction: \<^verbatim>\<open>_check_integrity\<close>, \<^verbatim>\<open>_download\<close>, \<^verbatim>\<open>__init__\<close>\<close>

definition check_integrity :: "world \<Rightarrow> 'h dataset \<Rightarrow> (error + bool) \<times> world" where
  "check_integrity w self =
     (case metadata (self_split self) of
        None \<Rightarrow> (Inl KeyError, w)
      | Some m \<Rightarrow>
          let dirpath = os_path_join (self_root self) [directory m];
              (found, w1) = os_path_exists w dirpath
          in if \<not> found then (Inr False, w1) else (Inr True, w1))"

text \<open>
  \<^verbatim>\<open>download_and_extract_archive(url, root, filename, md5)\<close> is not part of this module:
  it is a parameter. It changes the file system, and it returns or raises.
\<close>

type_synonym fetcher = "string \<Rightarrow> string \<Rightarrow> string \<Rightarrow> string option \<Rightarrow> fs \<Rightarrow> error option \<times> fs"

definition download :: "fetcher \<Rightarrow> world \<Rightarrow> 'h dataset \<Rightarrow> (error + unit) \<times> world" where
  "download fetch w self =
     (case check_integrity w self of
        (Inl e, w1) \<Rightarrow> (Inl e, w1)
      | (Inr True, w1) \<Rightarrow>
          (Inr (), w1\<lparr>trace := trace w1 @ [Print ''Files already downloaded and verified'']\<rparr>)
      | (Inr False, w1) \<Rightarrow>
          (case metadata (self_split self) of
             None \<Rightarrow> (Inl KeyError, w1)
           | Some m \<Rightarrow>
               let md5_arg = (if self_checksum self then Some (md5 m) else None);
                   (r, f') = fetch (url m) (self_root self) (filename m) md5_arg (fsys w1);
                   w2 = w1\<lparr>fsys := f',
                           trace := trace w1 @ [Fetch (url m) (self_root self) (filename m) md5_arg]\<rparr>
               in (case r of Some e \<Rightarrow> (Inl e, w2) | None \<Rightarrow> (Inr (), w2))))"

text \<open>
  \<^verbatim>\<open>__init__\<close>. The attribute \<^verbatim>\<open>files\<close> is set last; until then the record holds the
  empty list for it, and nothing reads it.
\<close>

definition init ::
  "fetcher \<Rightarrow> world \<Rightarrow> string \<Rightarrow> string \<Rightarrow> 'h hook option \<Rightarrow> bool \<Rightarrow> bool
     \<Rightarrow> (error + 'h dataset) \<times> world" where
  "init fetch w root_dir split transforms download_flag checksum =
     (if split \<notin> dom metadata then (Inl AssertionError, w)
      else
        let self = \<lparr>self_root = root_dir, self_split = split, self_transforms = transforms,
                    self_checksum = checksum, self_files = []\<rparr>
        in case (if download_flag then download fetch w self else (Inr (), w)) of
             (Inl e, w1) \<Rightarrow> (Inl e, w1)
           | (Inr u, w1) \<Rightarrow>
               (case check_integrity w1 self of
                  (Inl e, w2) \<Rightarrow> (Inl e, w2)
                | (Inr False, w2) \<Rightarrow> (Inl DatasetNotFoundError, w2)
                | (Inr True, w2) \<Rightarrow>
                    (case load_files w2 (self_root self) (self_split self) of
                       (Inl e, w3) \<Rightarrow> (Inl e, w3)
                     | (Inr files, w3) \<Rightarrow> (Inr (self\<lparr>self_files := files\<rparr>), w3))))"

subsection \<open>Derived notions and examples\<close>

text \<open>
  What discovery returns, written without the loop and the trace: the path group built
  for one \<open>vv\<close> path, the sorted \<open>vv\<close> files of a folder, the \<open>tiles\<close> folders of a
  split's directory in sorted order, and the \<open>vv\<close> files of all of them in the order of
  discovery. Lemma \<open>load_files_eq\<close> below shows that \<^const>\<open>load_files\<close> returns the groups
  of exactly these paths.
\<close>

definition group_of :: "string \<Rightarrow> string \<Rightarrow> path_group" where
  "group_of split vv =
     (if split \<noteq> ''test''
      then [''vv'' \<mapsto> vv, ''vh'' \<mapsto> replace ''vv'' ''vh'' vv,
            ''flood_mask'' \<mapsto> flood_mask_of vv, ''water_mask'' \<mapsto> water_mask_of vv]
      else [''vv'' \<mapsto> vv, ''vh'' \<mapsto> replace ''vv'' ''vh'' vv,
            ''water_mask'' \<mapsto> water_mask_of vv])"

definition folder_vvs :: "fs \<Rightarrow> string \<Rightarrow> string list" where
  "folder_vvs f folder = sort (fs_glob f (os_path_join folder [''vv'', ''*.png'']))"

definition tiles_folders :: "fs \<Rightarrow> string \<Rightarrow> string \<Rightarrow> string list" where
  "tiles_folders f root_dir dir =
     map (\<lambda>folder. os_path_join folder [''tiles'']) (sort (fs_glob f (os_path_join root_dir [dir, ''*''])))"

definition discovered_vvs :: "fs \<Rightarrow> string \<Rightarrow> string \<Rightarrow> string list" where
  "discovered_vvs f root_dir dir = concat (map (folder_vvs f) (tiles_folders f root_dir dir))"

text \<open>
  What \<^verbatim>\<open>__getitem__\<close> computes from the path group of the \<open>vv\<close> path \<open>p\<close>, once the
  group has been looked up (see \<open>getitem_sample_group\<close> below).
\<close>

definition assemble :: "fs \<Rightarrow> string \<Rightarrow> string \<Rightarrow> error + sample" where
  "assemble f split p =
     bind_err (load_image f p) (\<lambda>vv.
     bind_err (load_image f (replace ''vv'' ''vh'' p)) (\<lambda>vh.
     bind_err (load_target f (water_mask_of p)) (\<lambda>water_mask.
     bind_err
       (if split \<noteq> ''test'' then
          bind_err (load_target f (flood_mask_of p)) (\<lambda>flood_mask.
          torch_stack [water_mask, flood_mask])
        else Inr (unsqueeze_0 water_mask)) (\<lambda>mask.
     bind_err (torch_cat [vv, vh]) (\<lambda>image.
     Inr [''image'' \<mapsto> FloatTensor image, ''mask'' \<mapsto> LongTensor mask])))))"

text \<open>\<^verbatim>\<open>sample['image'].shape[0]\<close> and \<^verbatim>\<open>sample['mask'].shape[0]\<close>.\<close>

definition image_channels :: "sample \<Rightarrow> nat option" where
  "image_channels s =
     (case s ''image'' of
        Some (FloatTensor t) \<Rightarrow> (case shape t of [] \<Rightarrow> None | c # rest \<Rightarrow> Some c)
      | _ \<Rightarrow> None)"

definition mask_planes :: "sample \<Rightarrow> nat option" where
  "mask_planes s =
     (case s ''mask'' of
        Some (LongTensor t) \<Rightarrow> (case shape t of [] \<Rightarrow> None | c # rest \<Rightarrow> Some c)
      | _ \<Rightarrow> None)"

text \<open>
  An example: images of one row and two columns, and a tree with the splits \<open>train\<close>
  (folders \<open>a\<close> and \<open>b\<close>, listed out of order; only the tile \<open>0\<close> of \<open>a\<close> has all its
  files readable) and \<open>test\<close> (one folder, one tile).
\<close>

definition ex_rgb :: rgb_image where
  "ex_rgb = \<lparr>rgb_height = 1, rgb_width = 2,
              rgb_pixel = (\<lambda>y x. if x = 0 then (1, 2, 3) else (4, 5, 6))\<rparr>"

definition ex_grey :: grey_image where
  "ex_grey = \<lparr>grey_height = 1, grey_width = 2,
               grey_pixel = (\<lambda>y x. if x = 0 then 0 else 255)\<rparr>"

definition ex_fs :: fs where
  "ex_fs =
     \<lparr>fs_exists = (\<lambda>p. p = ''d/train'' \<or> p = ''d/test_internal''),
      fs_glob = (\<lambda>p.
        if p = ''d/train/*'' then [''d/train/b'', ''d/train/a'']
        else if p = ''d/train/a/tiles/vv/*.png''
          then [''d/train/a/tiles/vv/1_vv.png'', ''d/train/a/tiles/vv/0_vv.png'']
        else if p = ''d/train/b/tiles/vv/*.png'' then [''d/train/b/tiles/vv/0_vv.png'']
        else if p = ''d/test_internal/*'' then [''d/test_internal/e'']
        else if p = ''d/test_internal/e/tiles/vv/*.png''
          then [''d/test_internal/e/tiles/vv/0_vv.png'']
        else []),
      fs_read_rgb = (\<lambda>p.
        if p = ''d/train/a/tiles/vv/0_vv.png'' \<or> p = ''d/train/a/tiles/vh/0_vh.png''
           \<or> p = ''d/train/a/tiles/vv/1_vv.png''
           \<or> p = ''d/test_internal/e/tiles/vv/0_vv.png''
           \<or> p = ''d/test_internal/e/tiles/vh/0_vh.png''
        then Some ex_rgb else None),
      fs_read_grey = (\<lambda>p.
        if p = ''d/train/a/tiles/water_body_label/0.png''
           \<or> p = ''d/train/a/tiles/flood_label/0.png''
           \<or> p = ''d/test_internal/e/tiles/water_body_label/0.png''
        then Some ex_grey else None)\<rparr>"

definition ex_world :: world where
  "ex_world = \<lparr>fsys = ex_fs, trace = []\<rparr>"

text \<open>The same tree, listed by the operating system in the opposite order.\<close>

definition ex_world_rev :: world where
  "ex_world_rev = \<lparr>fsys = ex_fs\<lparr>fs_glob := (\<lambda>p. rev (fs_glob ex_fs p))\<rparr>, trace = []\<rparr>"

text \<open>An empty disk, and a download that leaves the example tree behind.\<close>

definition empty_world :: world where
  "empty_world =
     \<lparr>fsys = \<lparr>fs_exists = (\<lambda>p. False), fs_glob = (\<lambda>p. []), fs_read_rgb = (\<lambda>p. None),
               fs_read_grey = (\<lambda>p. None)\<rparr>,
      trace = []\<rparr>"

definition ex_fetch :: fetcher where
  "ex_fetch u r n m f = (None, ex_fs)"

definition no_fetch :: fetcher where
  "no_fetch u r n m f = (Some FetchError, f)"

text \<open>The files and datasets that construction yields on the example tree, and their samples.\<close>

definition ex_test_files :: "path_group list" where
  "ex_test_files =
     [[''vv'' \<mapsto> ''d/test_internal/e/tiles/vv/0_vv.png'',
       ''vh'' \<mapsto> ''d/test_internal/e/tiles/vh/0_vh.png'',
       ''water_mask'' \<mapsto> ''d/test_internal/e/tiles/water_body_label/0.png'']]"

definition ex_train_files :: "path_group list" where
  "ex_train_files =
     [[''vv'' \<mapsto> ''d/train/a/tiles/vv/0_vv.png'',
       ''vh'' \<mapsto> ''d/train/a/tiles/vh/0_vh.png'',
       ''flood_mask'' \<mapsto> ''d/train/a/tiles/flood_label/0.png'',
       ''water_mask'' \<mapsto> ''d/train/a/tiles/water_body_label/0.png''],
      [''vv'' \<mapsto> ''d/train/a/tiles/vv/1_vv.png'',
       ''vh'' \<mapsto> ''d/train/a/tiles/vh/1_vh.png'',
       ''flood_mask'' \<mapsto> ''d/train/a/tiles/flood_label/1.png'',
       ''water_mask'' \<mapsto> ''d/train/a/tiles/water_body_label/1.png''],
      [''vv'' \<mapsto> ''d/train/b/tiles/vv/0_vv.png'',
       ''vh'' \<mapsto> ''d/train/b/tiles/vh/0_vh.png'',
       ''flood_mask'' \<mapsto> ''d/train/b/tiles/flood_label/0.png'',
       ''water_mask'' \<mapsto> ''d/train/b/tiles/water_body_label/0.png'']]"

definition ex_test :: "'h hook option \<Rightarrow> 'h dataset" where
  "ex_test t =
     \<lparr>self_root = ''d'', self_split = ''test'', self_transforms = t, self_checksum = False,
      self_files = ex_test_files\<rparr>"

definition ex_train :: "'h hook option \<Rightarrow> 'h dataset" where
  "ex_train t =
     \<lparr>self_root = ''d'', self_split = ''train'', self_transforms = t, self_checksum = False,
      self_files = ex_train_files\<rparr>"

definition ex_sample_test :: sample where
  "ex_sample_test =
     [''image'' \<mapsto> FloatTensor \<lparr>shape = [6, 1, 2], elems = [1, 4, 2, 5, 3, 6, 1, 4, 2, 5, 3, 6]\<rparr>,
      ''mask'' \<mapsto> LongTensor \<lparr>shape = [1, 1, 2], elems = [0, 1]\<rparr>]"

definition ex_sample_train :: sample where
  "ex_sample_train =
     [''image'' \<mapsto> FloatTensor \<lparr>shape = [6, 1, 2], elems = [1, 4, 2, 5, 3, 6, 1, 4, 2, 5, 3, 6]\<rparr>,
      ''mask'' \<mapsto> LongTensor \<lparr>shape = [2, 1, 2], elems = [0, 1, 0, 1]\<rparr>]"

text \<open>Two hooks: one drops the image from the sample, one counts its calls.\<close>

definition drop_image :: "unit hook" where
  "drop_image h s = (s(''image'' := None), h)"

definition count_calls :: "nat hook" where
  "count_calls n s = (s, Suc n)"

text \<open>The elements of the tensor that \<^verbatim>\<open>_load_image\<close> returns for a decoded image.\<close>

definition chw_elems :: "rgb_image \<Rightarrow> real list" where
  "chw_elems img =
     concat (map (\<lambda>k. concat (map (\<lambda>y. map (\<lambda>x. elems (tensor_map (\<lambda>v. real (unat v)) (np_array_rgb img))
                                                   ! ((y * rgb_width img + x) * 3 + k))
                                            [0..<rgb_width img])
                                 [0..<rgb_height img]))
                 [0..<3])"

section \<open>Properties\<close>

lemma upt_0_1: "[0..<1] = [0]"
  by simp

lemma upt_0_2: "[0..<2] = [0, 1]"
  by (simp add: numeral_2_eq_2)

lemma upt_0_3: "[0..<3] = [0, 1, 2]"
  by (simp add: numeral_3_eq_3 numeral_2_eq_2)

subsection \<open>File discovery\<close>

lemma zip4_map:
  "map (\<lambda>(a, b, c, d). F a b c d) (zip xs (zip (map f xs) (zip (map g xs) (map h xs))))
     = map (\<lambda>x. F x (f x) (g x) (h x)) xs"
  by (induction xs) simp_all

lemma zip3_map:
  "map (\<lambda>(a, b, c). F a b c) (zip xs (zip (map f xs) (map g xs)))
     = map (\<lambda>x. F x (f x) (g x)) xs"
  by (induction xs) simp_all

lemma group_of_test:
  "group_of ''test'' =
     (\<lambda>vv. [''vv'' \<mapsto> vv, ''vh'' \<mapsto> replace ''vv'' ''vh'' vv, ''water_mask'' \<mapsto> water_mask_of vv])"
  by (rule ext) (simp add: group_of_def)

lemma group_of_labelled:
  "split \<noteq> ''test'' \<Longrightarrow>
   group_of split =
     (\<lambda>vv. [''vv'' \<mapsto> vv, ''vh'' \<mapsto> replace ''vv'' ''vh'' vv,
            ''flood_mask'' \<mapsto> flood_mask_of vv, ''water_mask'' \<mapsto> water_mask_of vv])"
  by (rule ext) (simp add: group_of_def)

lemma load_folders_Cons:
  "load_folders split (folder # folders) files w =
     load_folders split folders (files @ map (group_of split) (folder_vvs (fsys w) folder))
       (w\<lparr>trace := trace w @ [Glob (os_path_join folder [''vv'', ''*.png''])]\<rparr>)"
proof (cases "split = ''test''")
  case True
  have "map (\<lambda>(vv, vh, water_mask). [''vv'' \<mapsto> vv, ''vh'' \<mapsto> vh, ''water_mask'' \<mapsto> water_mask])
          (zip vvs (zip (map (replace ''vv'' ''vh'') vvs) (map water_mask_of vvs)))
        = map (group_of split) vvs" for vvs
    unfolding zip3_map by (simp only: True group_of_test)
  with True show ?thesis
    by (simp only: load_folders.simps glob_glob_def Let_def case_prod_conv folder_vvs_def
          simp_thms if_False)
next
  case False
  have "map (\<lambda>(vv, vh, flood_mask, water_mask).
               [''vv'' \<mapsto> vv, ''vh'' \<mapsto> vh, ''flood_mask'' \<mapsto> flood_mask,
                ''water_mask'' \<mapsto> water_mask])
          (zip vvs (zip (map (replace ''vv'' ''vh'') vvs)
             (zip (map flood_mask_of vvs) (map water_mask_of vvs))))
        = map (group_of split) vvs" for vvs
    unfolding zip4_map by (simp only: group_of_labelled [OF False])
  with False show ?thesis
    by (simp only: load_folders.simps glob_glob_def Let_def case_prod_conv folder_vvs_def
          simp_thms if_True)
qed

lemma load_folders_eq:
  "load_folders split folders files w =
     (files @ map (group_of split) (concat (map (folder_vvs (fsys w)) folders)),
      w\<lparr>trace := trace w @ map (\<lambda>folder. Glob (os_path_join folder [''vv'', ''*.png''])) folders\<rparr>)"
proof (induction folders arbitrary: files w)
  case Nil
  show ?case by simp
next
  case (Cons folder folders)
  show ?case
    unfolding load_folders_Cons Cons.IH by simp
qed

lemma load_files_eq:
  "metadata split = Some m \<Longrightarrow>
   load_files w root_dir split =
     (Inr (map (group_of split) (discovered_vvs (fsys w) root_dir (directory m))),
      w\<lparr>trace := trace w @ Glob (os_path_join root_dir [directory m, ''*''])
               # map (\<lambda>folder. Glob (os_path_join folder [''vv'', ''*.png'']))
                   (tiles_folders (fsys w) root_dir (directory m))\<rparr>)"
  by (simp add: load_files_def glob_glob_def load_folders_eq discovered_vvs_def tiles_folders_def
      Let_def comp_def)

lemma load_files_invalid:
  "metadata split = None \<Longrightarrow> load_files w root_dir split = (Inl KeyError, w)"
  by (simp add: load_files_def)

lemma metadata_train:
  "metadata ''train'' =
     Some \<lparr>filename = ''train.zip'', md5 = ''1e95792fe0f6e3c9000abdeab2a8ab0f'',
           directory = ''train'',
           url = ''https://drive.google.com/file/d/14HqNW5uWLS92n7KrxKgDwUTsSEST6LCr''\<rparr>"
  by (simp add: metadata_def)

lemma dom_metadata: "dom metadata = {''train'', ''val'', ''test''}"
  by (auto simp: metadata_def split: if_splits)

lemma sort_mset_cong: "mset xs = mset ys \<Longrightarrow> sort xs = sort ys"
  for xs ys :: "string list"
  by (rule properties_for_sort) simp_all

lemma discovered_vvs_cong:
  assumes "\<forall>p. mset (fs_glob f1 p) = mset (fs_glob f2 p)"
  shows "discovered_vvs f1 root_dir dir = discovered_vvs f2 root_dir dir"
proof -
  have s: "sort (fs_glob f1 p) = sort (fs_glob f2 p)" for p
    by (rule sort_mset_cong) (simp add: assms)
  have "folder_vvs f1 = folder_vvs f2"
    by (rule ext) (simp add: folder_vvs_def s)
  moreover have "tiles_folders f1 root_dir dir = tiles_folders f2 root_dir dir"
    by (simp add: tiles_folders_def s)
  ultimately show ?thesis
    by (simp add: discovered_vvs_def)
qed

lemma fst_load_files_cong:
  assumes "\<forall>p. mset (fs_glob (fsys w1) p) = mset (fs_glob (fsys w2) p)"
  shows "fst (load_files w1 root_dir split) = fst (load_files w2 root_dir split)"
proof (cases "metadata split")
  case None
  then show ?thesis by (simp add: load_files_invalid)
next
  case (Some m)
  then show ?thesis
    by (simp add: load_files_eq discovered_vvs_cong [OF assms])
qed

lemma group_of_vv: "group_of split vv ''vv'' = Some vv"
  by (simp add: group_of_def)

lemma group_of_vh: "group_of split vv ''vh'' = Some (replace ''vv'' ''vh'' vv)"
  by (simp add: group_of_def)

lemma group_of_water: "group_of split vv ''water_mask'' = Some (water_mask_of vv)"
  by (simp add: group_of_def)

lemma group_of_flood:
  "group_of split vv ''flood_mask'' = (if split \<noteq> ''test'' then Some (flood_mask_of vv) else None)"
  by (simp add: group_of_def)

lemma sorted_folder_vvs: "sorted (folder_vvs f folder)"
  by (simp add: folder_vvs_def)

text \<open>
  Claim C3. File discovery is deterministic and ordered. Two runs on one directory tree,
  whatever the order in which the operating system lists each directory (the two file
  systems return, for every pattern, the same paths up to order), return the same sequence
  of path groups; and the \<open>vv\<close> paths of that sequence are those of the event folders taken
  in lexicographic order of their paths, the files of each folder in lexicographic order.
\<close>

theorem discovery_deterministic:
  assumes "\<forall>p. mset (fs_glob (fsys w1) p) = mset (fs_glob (fsys w2) p)"
  shows "fst (load_files w1 root_dir split) = fst (load_files w2 root_dir split) \<and>
         (\<forall>m. metadata split = Some m \<longrightarrow>
            (\<exists>files. fst (load_files w1 root_dir split) = Inr files \<and>
               map (\<lambda>g. g ''vv'') files =
                 map Some (concat (map (\<lambda>folder. sort (fs_glob (fsys w1)
                                          (os_path_join (os_path_join folder [''tiles''])
                                             [''vv'', ''*.png''])))
                                   (sort (fs_glob (fsys w1)
                                      (os_path_join root_dir [directory m, ''*''])))))))"
proof (intro conjI allI impI)
  show "fst (load_files w1 root_dir split) = fst (load_files w2 root_dir split)"
    by (rule fst_load_files_cong [OF assms])
next
  fix m
  assume m: "metadata split = Some m"
  have "map (\<lambda>g. g ''vv'') (map (group_of split) vvs) = map Some vvs" for vvs
    by (simp add: comp_def group_of_vv)
  then show "\<exists>files. fst (load_files w1 root_dir split) = Inr files \<and>
               map (\<lambda>g. g ''vv'') files =
                 map Some (concat (map (\<lambda>folder. sort (fs_glob (fsys w1)
                                          (os_path_join (os_path_join folder [''tiles''])
                                             [''vv'', ''*.png''])))
                                   (sort (fs_glob (fsys w1)
                                      (os_path_join root_dir [directory m, ''*''])))))"
    by (simp add: load_files_eq [OF m] discovered_vvs_def tiles_folders_def folder_vvs_def comp_def)
qed

text \<open>
  Claim C2, as amended. For every discovered \<open>vv\<close> path the companion paths are derived by
  \<^verbatim>\<open>str.replace\<close>, which replaces every occurrence of the substring, not the first one
  only: the \<open>vh\<close> path has every \<open>vv\<close> replaced by \<open>vh\<close>; the water mask path has every
  \<open>_vv.png\<close> replaced by \<open>.png\<close> and then every \<open>vv\<close> by \<open>water_body_label\<close>; for
  \<open>train\<close> and \<open>val\<close> the flood mask path likewise with \<open>flood_label\<close>, and for \<open>test\<close>
  the group has no flood mask.
\<close>

theorem companion_paths:
  assumes "load_files w root_dir split = (Inr files, w')" and "g \<in> set files"
  shows "\<exists>vv. g ''vv'' = Some vv \<and>
              g ''vh'' = Some (replace ''vv'' ''vh'' vv) \<and>
              g ''water_mask'' =
                Some (replace ''vv'' ''water_body_label'' (replace ''_vv.png'' ''.png'' vv)) \<and>
              g ''flood_mask'' =
                (if split \<noteq> ''test''
                 then Some (replace ''vv'' ''flood_label'' (replace ''_vv.png'' ''.png'' vv))
                 else None)"
proof -
  from assms(1) obtain m where m: "metadata split = Some m"
    by (cases "metadata split") (simp_all add: load_files_invalid)
  from assms(1) have "files = map (group_of split) (discovered_vvs (fsys w) root_dir (directory m))"
    unfolding load_files_eq [OF m] by simp
  with assms(2) obtain vv where g: "g = group_of split vv"
    by auto
  show ?thesis
    unfolding g water_mask_of_def [symmetric] flood_mask_of_def [symmetric]
    by (rule exI [of _ vv]) (simp only: group_of_vv group_of_vh group_of_water group_of_flood simp_thms)
qed

lemma ex_load_files_train:
  "load_files ex_world ''d'' ''train'' =
     (Inr (ex_train_files),
      ex_world\<lparr>trace := [Glob ''d/train/*'', Glob ''d/train/a/tiles/vv/*.png'',
                          Glob ''d/train/b/tiles/vv/*.png'']\<rparr>)"
  by (simp add: metadata_def os_path_join_def join_step_def load_files_def glob_glob_def
        ex_world_def ex_fs_def ex_train_files_def water_mask_of_def flood_mask_of_def Let_def)

theorem discovery_deterministic_witness:
  "(\<forall>p. mset (fs_glob (fsys ex_world) p) = mset (fs_glob (fsys ex_world_rev) p)) \<and>
   metadata ''train'' =
     Some \<lparr>filename = ''train.zip'', md5 = ''1e95792fe0f6e3c9000abdeab2a8ab0f'',
           directory = ''train'',
           url = ''https://drive.google.com/file/d/14HqNW5uWLS92n7KrxKgDwUTsSEST6LCr''\<rparr> \<and>
   fst (load_files ex_world ''d'' ''train'') = Inr ex_train_files \<and>
   fst (load_files ex_world_rev ''d'' ''train'') = Inr ex_train_files \<and>
   map (\<lambda>g. g ''vv'') ex_train_files =
     [Some ''d/train/a/tiles/vv/0_vv.png'', Some ''d/train/a/tiles/vv/1_vv.png'',
      Some ''d/train/b/tiles/vv/0_vv.png'']"
proof -
  have h: "\<forall>p. mset (fs_glob (fsys ex_world) p) = mset (fs_glob (fsys ex_world_rev) p)"
    by (simp add: ex_world_def ex_world_rev_def)
  note t = discovery_deterministic [OF h, of "''d''" "''train''"]
  have l: "fst (load_files ex_world ''d'' ''train'') = Inr ex_train_files"
    by (simp add: ex_load_files_train)
  from t [THEN conjunct1] l
  have r: "fst (load_files ex_world_rev ''d'' ''train'') = Inr ex_train_files"
    by simp
  have o: "concat (map (\<lambda>folder. sort (fs_glob (fsys ex_world)
                          (os_path_join (os_path_join folder [''tiles'']) [''vv'', ''*.png''])))
                   (sort (fs_glob (fsys ex_world) (os_path_join ''d''
                      [directory \<lparr>filename = ''train.zip'',
                                  md5 = ''1e95792fe0f6e3c9000abdeab2a8ab0f'', directory = ''train'',
                                  url = ''https://drive.google.com/file/d/14HqNW5uWLS92n7KrxKgDwUTsSEST6LCr''\<rparr>,
                       ''*''])))) =
           [''d/train/a/tiles/vv/0_vv.png'', ''d/train/a/tiles/vv/1_vv.png'',
            ''d/train/b/tiles/vv/0_vv.png'']"
    by (simp add: ex_world_def ex_fs_def os_path_join_def join_step_def)
  from t [THEN conjunct2, rule_format, OF metadata_train] l
  have "map (\<lambda>g. g ''vv'') ex_train_files =
     [Some ''d/train/a/tiles/vv/0_vv.png'', Some ''d/train/a/tiles/vv/1_vv.png'',
      Some ''d/train/b/tiles/vv/0_vv.png'']"
    unfolding o by auto
  with h l r show ?thesis
    by (simp add: metadata_train)
qed

theorem companion_paths_witness:
  "load_files ex_world ''d'' ''train'' =
     (Inr (ex_train_files),
      ex_world\<lparr>trace := [Glob ''d/train/*'', Glob ''d/train/a/tiles/vv/*.png'',
                          Glob ''d/train/b/tiles/vv/*.png'']\<rparr>) \<and>
   hd (ex_train_files) \<in> set (ex_train_files) \<and>
   (\<exists>vv. hd (ex_train_files) ''vv'' = Some vv \<and>
      hd (ex_train_files) ''vh'' = Some (replace ''vv'' ''vh'' vv) \<and>
      hd (ex_train_files) ''water_mask'' =
        Some (replace ''vv'' ''water_body_label'' (replace ''_vv.png'' ''.png'' vv)) \<and>
      hd (ex_train_files) ''flood_mask'' =
        (if ''train'' \<noteq> ''test''
         then Some (replace ''vv'' ''flood_label'' (replace ''_vv.png'' ''.png'' vv))
         else None))"
proof -
  have m: "hd (ex_train_files) \<in> set (ex_train_files)"
    by (simp add: ex_train_files_def)
  from companion_paths [OF ex_load_files_train m] ex_load_files_train m
  show ?thesis by blast
qed

text \<open>
  Claim C2, as stated, fails on its own example: in \<open>d/train/a/tiles/vv/0_vv.png\<close> the
  substring \<open>vv\<close> occurs twice, and discovery replaces both occurrences, where replacing
  the first one only would leave the file name \<open>0_vv.png\<close>.
\<close>

theorem companion_paths_counterexample:
  "fst (load_files ex_world ''d'' ''train'') = Inr (ex_train_files) \<and>
   hd (ex_train_files) ''vv'' = Some ''d/train/a/tiles/vv/0_vv.png'' \<and>
   hd (ex_train_files) ''vh'' = Some ''d/train/a/tiles/vh/0_vh.png'' \<and>
   replace_first ''vv'' ''vh'' ''d/train/a/tiles/vv/0_vv.png'' = ''d/train/a/tiles/vh/0_vv.png'' \<and>
   hd (ex_train_files) ''vh'' \<noteq> Some (replace_first ''vv'' ''vh'' ''d/train/a/tiles/vv/0_vv.png'')"
  by (simp add: ex_load_files_train) (simp add: ex_train_files_def)

subsection \<open>Decoding\<close>

lemma os_path_join_Nil: "os_path_join p [] = p"
  by (simp add: os_path_join_def)

lemma clamp_0_1: "clamp 0 1 v = (if v = 0 then 0 else 1)"
proof (cases "v = 0")
  case True
  then show ?thesis by (simp add: clamp_def)
next
  case False
  then have "1 \<le> v" by (simp add: word_le_nat_alt unat_gt_0 Suc_le_eq)
  with False show ?thesis by (simp add: clamp_def max_def min_def)
qed

lemma target_label_eq: "target_label v = (if v = 0 then 0 else 1)"
  by (simp add: target_label_def clamp_0_1)

lemma load_target_eq:
  "load_target f p =
     (case fs_read_grey f p of
        None \<Rightarrow> Inl DecodeFailure
      | Some img \<Rightarrow> Inr \<lparr>shape = [grey_height img, grey_width img],
                         elems = map target_label (elems (np_array_grey img))\<rparr>)"
  by (simp add: load_target_def os_path_join_Nil torch_clamp_def tensor_map_def np_array_grey_def
        target_label_def [abs_def] comp_def split: option.splits)

lemma load_image_eq:
  "load_image f p =
     (case fs_read_rgb f p of
        None \<Rightarrow> Inl DecodeFailure
      | Some img \<Rightarrow> Inr \<lparr>shape = [3, rgb_height img, rgb_width img], elems = chw_elems img\<rparr>)"
  by (simp add: load_image_def os_path_join_Nil permute_2_0_1_def tensor_map_def np_array_rgb_def
        chw_elems_def split: option.splits)

lemma length_concat_blocks:
  "(\<And>a. a < n \<Longrightarrow> length (F a) = m) \<Longrightarrow> length (concat (map F [0..<n])) = n * m"
  by (induction n) simp_all

lemma nth_concat_blocks:
  assumes "\<And>a. a < n \<Longrightarrow> length (F a) = m" and "k < n" and "j < m"
  shows "concat (map F [0..<n]) ! (k * m + j) = F k ! j"
  using assms
proof (induction n)
  case 0
  then show ?case by simp
next
  case (Suc n)
  have len: "length (concat (map F [0..<n])) = n * m"
    by (rule length_concat_blocks) (simp add: Suc.prems(1))
  show ?case
  proof (cases "k < n")
    case True
    then have "Suc k \<le> n" by simp
    then have "Suc k * m \<le> n * m" by (rule mult_le_mono1)
    with Suc.prems(3) have "k * m + j < n * m" by simp
    with True Suc show ?thesis
      by (simp add: nth_append len)
  next
    case False
    with Suc.prems(2) have "k = n" by simp
    then show ?thesis
      by (simp add: nth_append len)
  qed
qed

lemma chw_elems_nth:
  assumes "k < 3" and "y < rgb_height img" and "x < rgb_width img"
  shows "chw_elems img ! (k * (rgb_height img * rgb_width img) + (y * rgb_width img + x))
           = real (unat ((case rgb_pixel img y x of (r, g, b) \<Rightarrow> [r, g, b]) ! k))"
proof -
  let ?H = "rgb_height img" and ?W = "rgb_width img"
  let ?px = "\<lambda>y x. case rgb_pixel img y x of (r, g, b) \<Rightarrow> [r, g, b]"
  let ?row = "\<lambda>y. concat (map (?px y) [0..<?W])"
  have lpx: "length (?px y x) = 3" for y x
    by (simp split: prod.splits)
  have lrow: "length (?row y) = ?W * 3" for y
    by (rule length_concat_blocks) (rule lpx)
  have src: "elems (np_array_rgb img) ! ((y * ?W + x) * 3 + k) = ?px y x ! k"
  proof -
    from assms(1,3) have j: "x * 3 + k < ?W * 3" by simp
    have "elems (np_array_rgb img) ! (y * (?W * 3) + (x * 3 + k)) = ?row y ! (x * 3 + k)"
      unfolding np_array_rgb_def tensor.simps
      by (rule nth_concat_blocks [OF lrow assms(2) j])
    also have "?row y ! (x * 3 + k) = ?px y x ! k"
      by (rule nth_concat_blocks [OF lpx assms(3) assms(1)])
    finally show ?thesis
      by (simp add: algebra_simps)
  qed
  have inrange: "(y * ?W + x) * 3 + k < length (elems (np_array_rgb img))"
  proof -
    have "length (elems (np_array_rgb img)) = ?H * (?W * 3)"
      unfolding np_array_rgb_def tensor.simps
      by (rule length_concat_blocks) (rule lrow)
    moreover have "Suc y * (?W * 3) \<le> ?H * (?W * 3)"
      using assms(2) by (intro mult_le_mono1) simp
    moreover have "x * 3 + k < ?W * 3" using assms(1,3) by simp
    ultimately show ?thesis by (simp add: algebra_simps)
  qed
  let ?E = "\<lambda>k y x. elems (tensor_map (\<lambda>v. real (unat v)) (np_array_rgb img)) ! ((y * ?W + x) * 3 + k)"
  let ?plane = "\<lambda>k. concat (map (\<lambda>y. map (?E k y) [0..<?W]) [0..<?H])"
  have lplane: "length (?plane k) = ?H * ?W" for k
    by (rule length_concat_blocks) simp
  from assms have j: "y * ?W + x < ?H * ?W"
  proof -
    have "Suc y * ?W \<le> ?H * ?W" using assms(2) by (intro mult_le_mono1) simp
    with assms(3) show ?thesis by simp
  qed
  have "chw_elems img ! (k * (?H * ?W) + (y * ?W + x)) = ?plane k ! (y * ?W + x)"
    unfolding chw_elems_def
    by (rule nth_concat_blocks [OF lplane assms(1) j])
  also have "\<dots> = map (?E k y) [0..<?W] ! x"
    by (rule nth_concat_blocks [OF _ assms(2) assms(3)]) simp
  also have "\<dots> = ?E k y x"
    using assms(3) by simp
  also have "\<dots> = real (unat (elems (np_array_rgb img) ! ((y * ?W + x) * 3 + k)))"
    unfolding tensor_map_def tensor.simps by (rule nth_map [OF inrange])
  also have "\<dots> = real (unat (?px y x ! k))"
    by (simp only: src)
  finally show ?thesis .
qed

text \<open>
  The tensor of \<^verbatim>\<open>_load_image\<close> is channel first: its element at channel \<open>k\<close>, row \<open>y\<close>
  and column \<open>x\<close> is the \<open>k\<close>-th value of the pixel at row \<open>y\<close> and column \<open>x\<close>.
\<close>

lemma load_image_channel_first:
  assumes "fs_read_rgb f p = Some img"
    and "k < 3" and "y < rgb_height img" and "x < rgb_width img"
  shows "\<exists>t. load_image f p = Inr t \<and>
             shape t = [3, rgb_height img, rgb_width img] \<and>
             elems t ! (k * (rgb_height img * rgb_width img) + (y * rgb_width img + x))
               = real (unat ((case rgb_pixel img y x of (r, g, b) \<Rightarrow> [r, g, b]) ! k))"
  using assms by (simp add: load_image_eq chw_elems_nth)

text \<open>
  Claim C4. Mask decoding clamps every pixel to \<open>[0, 1]\<close> and casts it to the integer
  label type: a pixel \<open>v \<le> 0\<close> gets label 0, a pixel \<open>v \<ge> 1\<close> gets label 1; in
  particular 0, 128 and 255 get 0, 1 and 1. The tensor that \<^verbatim>\<open>_load_target\<close> returns
  for a readable mask holds, pixel by pixel, the labels of the decoded array.
\<close>

theorem mask_labels:
  "(v \<le> 0 \<longrightarrow> target_label v = 0) \<and> (1 \<le> v \<longrightarrow> target_label v = 1) \<and>
   target_label 0 = 0 \<and> target_label 128 = 1 \<and> target_label 255 = 1 \<and>
   (\<forall>img. fs_read_grey f (os_path_join path []) = Some img \<longrightarrow>
      load_target f path =
        Inr \<lparr>shape = [grey_height img, grey_width img],
             elems = map target_label (elems (np_array_grey img))\<rparr>)"
proof -
  have "1 \<le> v \<Longrightarrow> v \<noteq> 0" by auto
  then show ?thesis
    by (simp add: target_label_eq load_target_eq os_path_join_Nil)
qed

theorem mask_labels_witness:
  "(0::8 word) \<le> 0 \<and> target_label 0 = 0 \<and> (1::8 word) \<le> 128 \<and> target_label 128 = 1 \<and>
   fs_read_grey ex_fs (os_path_join ''d/train/a/tiles/water_body_label/0.png'' []) = Some ex_grey \<and>
   load_target ex_fs ''d/train/a/tiles/water_body_label/0.png'' =
     Inr \<lparr>shape = [1, 2], elems = [0, 1]\<rparr>"
proof -
  have r: "fs_read_grey ex_fs (os_path_join ''d/train/a/tiles/water_body_label/0.png'' []) = Some ex_grey"
    by (simp add: ex_fs_def os_path_join_def)
  have e: "map target_label (elems (np_array_grey ex_grey)) = [0, 1]"
    by (simp add: np_array_grey_def ex_grey_def target_label_eq upt_0_1 upt_0_2)
  have d: "grey_height ex_grey = 1 \<and> grey_width ex_grey = 2"
    by (simp add: ex_grey_def)
  from mask_labels [of 0 ex_fs "''d/train/a/tiles/water_body_label/0.png''"]
       mask_labels [of 128 ex_fs "''d/train/a/tiles/water_body_label/0.png''"] r e d
  show ?thesis by simp
qed

subsection \<open>Construction\<close>

lemma ex_init_test:
  "init no_fetch ex_world ''d'' ''test'' t False False =
     (Inr (ex_test t),
      ex_world\<lparr>trace := [Exists ''d/test_internal'', Glob ''d/test_internal/*'',
                          Glob ''d/test_internal/e/tiles/vv/*.png'']\<rparr>)"
  by (simp add: init_def metadata_def check_integrity_def os_path_exists_def os_path_join_def
        join_step_def load_files_def glob_glob_def ex_world_def ex_fs_def ex_test_def ex_test_files_def
        water_mask_of_def flood_mask_of_def Let_def)

lemma ex_init_train:
  "init no_fetch ex_world ''d'' ''train'' t False False =
     (Inr (ex_train t),
      ex_world\<lparr>trace := [Exists ''d/train'', Glob ''d/train/*'',
                          Glob ''d/train/a/tiles/vv/*.png'', Glob ''d/train/b/tiles/vv/*.png'']\<rparr>)"
  by (simp add: init_def metadata_def check_integrity_def os_path_exists_def os_path_join_def
        join_step_def load_files_def glob_glob_def ex_world_def ex_fs_def ex_train_def ex_train_files_def
        water_mask_of_def flood_mask_of_def Let_def)

lemma check_integrity_eq:
  "metadata (self_split self) = Some m \<Longrightarrow>
   check_integrity w self =
     (Inr (fs_exists (fsys w) (os_path_join (self_root self) [directory m])),
      w\<lparr>trace := trace w @ [Exists (os_path_join (self_root self) [directory m])]\<rparr>)"
  by (simp add: check_integrity_def os_path_exists_def Let_def)

text \<open>
  Claim C6. Construction with a split that is not \<open>train\<close>, \<open>val\<close> or \<open>test\<close> fails with
  the assertion's error before anything else is done: the world is returned as it was,
  with no call recorded in its trace and the file system untouched.
\<close>

theorem invalid_split:
  assumes "split \<notin> {''train'', ''val'', ''test''}"
  shows "init fetch w root_dir split transforms download_flag checksum = (Inl AssertionError, w)"
  using assms by (simp add: init_def dom_metadata)

theorem invalid_split_witness:
  "''bogus'' \<notin> {''train'', ''val'', ''test''} \<and>
   init ex_fetch empty_world ''d'' ''bogus'' None True True = (Inl AssertionError, empty_world)"
proof -
  have h: "''bogus'' \<notin> {''train'', ''val'', ''test''}" by simp
  from invalid_split [OF h] h show ?thesis by blast
qed

text \<open>
  Claim C7. For a valid split, once the optional download attempt has returned (leaving
  the world \<open>w1\<close>), construction fails with \<open>DatasetNotFoundError\<close> exactly when the
  split's directory does not exist under the root; when it exists, construction runs file
  discovery and succeeds with the files discovered.
\<close>

theorem dataset_not_found:
  assumes "metadata split = Some m"
    and "(if download_flag
          then download fetch w
                 \<lparr>self_root = root_dir, self_split = split, self_transforms = transforms,
                  self_checksum = checksum, self_files = []\<rparr>
          else (Inr (), w)) = (Inr (), w1)"
  shows "(fst (init fetch w root_dir split transforms download_flag checksum)
            = Inl DatasetNotFoundError
          \<longleftrightarrow> \<not> fs_exists (fsys w1) (os_path_join root_dir [directory m])) \<and>
         (fs_exists (fsys w1) (os_path_join root_dir [directory m]) \<longrightarrow>
            (\<exists>files w2.
               load_files (w1\<lparr>trace := trace w1 @ [Exists (os_path_join root_dir [directory m])]\<rparr>)
                 root_dir split = (Inr files, w2) \<and>
               init fetch w root_dir split transforms download_flag checksum =
                 (Inr \<lparr>self_root = root_dir, self_split = split, self_transforms = transforms,
                       self_checksum = checksum, self_files = files\<rparr>, w2)))"
proof -
  have d: "split \<in> dom metadata" using assms(1) by auto
  show ?thesis
  proof (cases "fs_exists (fsys w1) (os_path_join root_dir [directory m])")
    case True
    with d assms show ?thesis
      by (simp add: init_def Let_def check_integrity_eq load_files_eq)
  next
    case False
    with d assms show ?thesis
      by (simp add: init_def Let_def check_integrity_eq)
  qed
qed


lemma metadata_test:
  "metadata ''test'' =
     Some \<lparr>filename = ''test_without_ref_labels.zip'', md5 = ''da9fa69e1498bd49d5c766338c6dac3d'',
           directory = ''test_internal'',
           url = ''https://drive.google.com/file/d/1rpMVluASnSHBfm2FhpPDio0GyCPOqg7E''\<rparr>"
  by (simp add: metadata_def)

lemma ex_download:
  "download ex_fetch empty_world
     \<lparr>self_root = ''d'', self_split = ''test'', self_transforms = t, self_checksum = True,
      self_files = []\<rparr> =
   (Inr (),
    \<lparr>fsys = ex_fs,
     trace = [Exists ''d/test_internal'',
              Fetch ''https://drive.google.com/file/d/1rpMVluASnSHBfm2FhpPDio0GyCPOqg7E'' ''d''
                ''test_without_ref_labels.zip'' (Some ''da9fa69e1498bd49d5c766338c6dac3d'')]\<rparr>)"
  by (simp add: download_def check_integrity_def os_path_exists_def metadata_test
        empty_world_def ex_fetch_def os_path_join_def join_step_def Let_def)

theorem dataset_not_found_witness:
  "fst (init no_fetch ex_world ''x'' ''test'' (None :: unit hook option) False False)
     = Inl DatasetNotFoundError \<and>
   \<not> fs_exists (fsys ex_world) ''x/test_internal'' \<and>
   fst (init ex_fetch empty_world ''d'' ''test'' (None :: unit hook option) True True)
     = Inr \<lparr>self_root = ''d'', self_split = ''test'', self_transforms = None,
            self_checksum = True, self_files = ex_test_files\<rparr>"
proof -
  let ?m = "\<lparr>filename = ''test_without_ref_labels.zip'', md5 = ''da9fa69e1498bd49d5c766338c6dac3d'',
             directory = ''test_internal'',
             url = ''https://drive.google.com/file/d/1rpMVluASnSHBfm2FhpPDio0GyCPOqg7E''\<rparr>"
  have j: "os_path_join ''x'' [directory ?m] = ''x/test_internal''"
          "os_path_join ''d'' [directory ?m] = ''d/test_internal''"
    by (simp_all add: os_path_join_def join_step_def)
  have a: "(if False
            then download no_fetch ex_world
                   \<lparr>self_root = ''x'', self_split = ''test'',
                    self_transforms = (None :: unit hook option),
                    self_checksum = False, self_files = []\<rparr>
            else (Inr (), ex_world)) = (Inr (), ex_world)"
    by simp
  have n: "\<not> fs_exists (fsys ex_world) ''x/test_internal''"
    by (simp add: ex_world_def ex_fs_def)
  have b: "(if True
            then download ex_fetch empty_world
                   \<lparr>self_root = ''d'', self_split = ''test'',
                    self_transforms = (None :: unit hook option),
                    self_checksum = True, self_files = []\<rparr>
            else (Inr (), empty_world)) =
           (Inr (),
            \<lparr>fsys = ex_fs,
             trace = [Exists ''d/test_internal'',
                      Fetch ''https://drive.google.com/file/d/1rpMVluASnSHBfm2FhpPDio0GyCPOqg7E'' ''d''
                        ''test_without_ref_labels.zip'' (Some ''da9fa69e1498bd49d5c766338c6dac3d'')]\<rparr>)"
    by (simp add: ex_download)
  have e: "fs_exists ex_fs ''d/test_internal''"
    by (simp add: ex_fs_def)
  have l: "fst (load_files
             \<lparr>fsys = ex_fs,
              trace = [Exists ''d/test_internal'',
                       Fetch ''https://drive.google.com/file/d/1rpMVluASnSHBfm2FhpPDio0GyCPOqg7E'' ''d''
                         ''test_without_ref_labels.zip'' (Some ''da9fa69e1498bd49d5c766338c6dac3d''),
                       Exists ''d/test_internal'']\<rparr> ''d'' ''test'') = Inr ex_test_files"
    by (simp add: metadata_def os_path_join_def join_step_def load_files_def glob_glob_def
          ex_fs_def ex_test_files_def water_mask_of_def flood_mask_of_def Let_def)
  from dataset_not_found [OF metadata_test a] n j
  have 1: "fst (init no_fetch ex_world ''x'' ''test'' (None :: unit hook option) False False)
             = Inl DatasetNotFoundError"
    by simp
  from dataset_not_found [OF metadata_test b] e j l
  have 2: "fst (init ex_fetch empty_world ''d'' ''test'' (None :: unit hook option) True True)
     = Inr \<lparr>self_root = ''d'', self_split = ''test'', self_transforms = None,
            self_checksum = True, self_files = ex_test_files\<rparr>"
    by auto
  from 1 2 n show ?thesis by simp
qed

subsection \<open>Indexing and the transform hook\<close>

lemma bind_err_Inl [simp]: "bind_err (Inl e) f = Inl e"
  by (simp add: bind_err_def)

lemma bind_err_Inr [simp]: "bind_err (Inr x) f = f x"
  by (simp add: bind_err_def)

lemma bind_err_Inl_iff:
  "bind_err r f = Inl e \<longleftrightarrow> r = Inl e \<or> (\<exists>x. r = Inr x \<and> f x = Inl e)"
  by (cases r) simp_all

lemma dict_getitem_error: "dict_getitem d k = Inl e \<Longrightarrow> e = KeyError"
  by (simp add: dict_getitem_def split: option.splits)

lemma load_image_error: "load_image f p = Inl e \<Longrightarrow> e = DecodeFailure"
  by (simp add: load_image_eq split: option.splits)

lemma load_target_error: "load_target f p = Inl e \<Longrightarrow> e = DecodeFailure"
  by (simp add: load_target_eq split: option.splits)

lemma torch_stack_error: "torch_stack ts = Inl e \<Longrightarrow> e = RuntimeError"
  by (simp add: torch_stack_def split: list.splits if_splits)

lemma torch_cat_error: "torch_cat ts = Inl e \<Longrightarrow> e = RuntimeError"
  by (simp add: torch_cat_def split: list.splits if_splits)

lemma list_getitem_error: "list_getitem xs i = Inl e \<Longrightarrow> e = IndexError"
  by (simp add: list_getitem_def Let_def split: if_splits)

lemma list_getitem_IndexError:
  "list_getitem xs i = Inl IndexError \<longleftrightarrow> i < - int (length xs) \<or> int (length xs) \<le> i"
  by (auto simp: list_getitem_def Let_def)

lemma list_getitem_negative:
  "- int (length xs) \<le> i \<Longrightarrow> i < 0 \<Longrightarrow>
   list_getitem xs i = Inr (xs ! nat (int (length xs) + i))"
  by (simp add: list_getitem_def Let_def add.commute)

lemma list_getitem_in_range:
  "0 \<le> i \<Longrightarrow> i < int (length xs) \<Longrightarrow> list_getitem xs i = Inr (xs ! nat i)"
  by (simp add: list_getitem_def Let_def)

lemma getitem_sample_IndexError:
  "getitem_sample f self i = Inl IndexError \<longleftrightarrow> list_getitem (self_files self) i = Inl IndexError"
  by (auto simp: getitem_sample_def bind_err_Inl_iff
        dest!: dict_getitem_error load_image_error load_target_error torch_stack_error
          torch_cat_error
        split: if_splits)

lemma getitem_eq:
  "getitem f self h i =
     (case getitem_sample f self i of
        Inl e \<Rightarrow> (Inl e, h)
      | Inr s \<Rightarrow> (case self_transforms self of
                     None \<Rightarrow> (Inr s, h)
                   | Some t \<Rightarrow> (Inr (fst (t h s)), snd (t h s))))"
  by (simp add: getitem_def case_prod_beta split: sum.splits option.splits)

lemma fst_getitem_Inl:
  "fst (getitem f self h i) = Inl e \<longleftrightarrow> getitem_sample f self i = Inl e"
  by (simp add: getitem_eq split: sum.splits option.splits)

lemma getitem_sample_transforms [simp]:
  "getitem_sample f (self\<lparr>self_transforms := t\<rparr>) i = getitem_sample f self i"
  by (simp add: getitem_sample_def)

lemma getitem_sample_index_cong:
  "list_getitem (self_files self) i = list_getitem (self_files self) j \<Longrightarrow>
   getitem_sample f self i = getitem_sample f self j"
  by (simp add: getitem_sample_def)

text \<open>
  Claim C8, as amended. \<^verbatim>\<open>get(index)\<close> fails with an \<open>IndexError\<close> exactly when the
  index is below \<open>- length()\<close> or at least \<open>length()\<close>: \<^verbatim>\<open>self.files[index]\<close> is a list
  subscript, and a negative index counts from the end. In particular
  \<^verbatim>\<open>get(length())\<close> raises \<open>IndexError\<close>, and no index in \<open>[0, length())\<close> does.
\<close>

theorem index_error:
  "(fst (getitem f self h index) = Inl IndexError
      \<longleftrightarrow> index < - len self \<or> len self \<le> index) \<and>
   fst (getitem f self h (len self)) = Inl IndexError"
  by (simp add: fst_getitem_Inl getitem_sample_IndexError list_getitem_IndexError len_def)

text \<open>
  Claim C5. With a transform hook configured, \<^verbatim>\<open>get(index)\<close> runs the hook once on the
  sample it has built and returns what the hook returns (the hook's state afterwards is
  the one after that single call); where no sample is built the hook is not run. With
  the identity as the hook, \<^verbatim>\<open>get(index)\<close> is what it is without a hook.
\<close>

theorem transform_hook:
  assumes "self_transforms self = Some t"
  shows "getitem f self h index =
           (case fst (getitem f (self\<lparr>self_transforms := None\<rparr>) h index) of
              Inl e \<Rightarrow> (Inl e, h)
            | Inr s \<Rightarrow> (Inr (fst (t h s)), snd (t h s))) \<and>
         getitem f (self\<lparr>self_transforms := Some (\<lambda>h s. (s, h))\<rparr>) h index =
           getitem f (self\<lparr>self_transforms := None\<rparr>) h index"
  using assms by (simp add: getitem_eq split: sum.splits)

lemma ex_chw: "chw_elems ex_rgb = [1, 4, 2, 5, 3, 6]"
  by (simp add: chw_elems_def tensor_map_def np_array_rgb_def ex_rgb_def upt_0_1 upt_0_2 upt_0_3)

lemma ex_labels: "map target_label (elems (np_array_grey ex_grey)) = [0, 1]"
  by (simp add: np_array_grey_def ex_grey_def target_label_eq upt_0_1 upt_0_2)

lemma ex_load_image:
  "load_image ex_fs ''d/test_internal/e/tiles/vv/0_vv.png'' = Inr \<lparr>shape = [3, 1, 2], elems = [1, 4, 2, 5, 3, 6]\<rparr>"
  "load_image ex_fs ''d/test_internal/e/tiles/vh/0_vh.png'' = Inr \<lparr>shape = [3, 1, 2], elems = [1, 4, 2, 5, 3, 6]\<rparr>"
  "load_image ex_fs ''d/train/a/tiles/vv/0_vv.png'' = Inr \<lparr>shape = [3, 1, 2], elems = [1, 4, 2, 5, 3, 6]\<rparr>"
  "load_image ex_fs ''d/train/a/tiles/vh/0_vh.png'' = Inr \<lparr>shape = [3, 1, 2], elems = [1, 4, 2, 5, 3, 6]\<rparr>"
  "load_image ex_fs ''d/train/a/tiles/vv/1_vv.png'' = Inr \<lparr>shape = [3, 1, 2], elems = [1, 4, 2, 5, 3, 6]\<rparr>"
  "load_image ex_fs ''d/train/a/tiles/vh/1_vh.png'' = Inl DecodeFailure"
  by (simp_all add: load_image_eq ex_fs_def ex_chw) (simp_all add: ex_rgb_def)

lemma ex_load_target:
  "load_target ex_fs ''d/test_internal/e/tiles/water_body_label/0.png'' = Inr \<lparr>shape = [1, 2], elems = [0, 1]\<rparr>"
  "load_target ex_fs ''d/train/a/tiles/water_body_label/0.png'' = Inr \<lparr>shape = [1, 2], elems = [0, 1]\<rparr>"
  "load_target ex_fs ''d/train/a/tiles/flood_label/0.png'' = Inr \<lparr>shape = [1, 2], elems = [0, 1]\<rparr>"
  by (simp_all add: load_target_eq ex_fs_def ex_labels) (simp_all add: ex_grey_def)

lemma ex_getitem_sample_test:
  "getitem_sample ex_fs (ex_test t) 0 = Inr ex_sample_test"
  "getitem_sample ex_fs (ex_test t) (- 1) = Inr ex_sample_test"
  by (simp_all add: getitem_sample_def list_getitem_def ex_test_def ex_test_files_def
        dict_getitem_def ex_load_image ex_load_target torch_cat_def unsqueeze_0_def
        ex_sample_test_def)

lemma ex_getitem_sample_train:
  "getitem_sample ex_fs (ex_train t) 0 = Inr ex_sample_train"
  "getitem_sample ex_fs (ex_train t) 1 = Inl DecodeFailure"
  by (simp_all add: getitem_sample_def list_getitem_def ex_train_def ex_train_files_def
        dict_getitem_def ex_load_image ex_load_target torch_cat_def torch_stack_def
        ex_sample_train_def)
    (simp_all add: numeral_2_eq_2)

lemma ex_len: "len (ex_test t) = 1" "len (ex_train t) = 3"
  by (simp_all add: len_def ex_test_def ex_test_files_def ex_train_def ex_train_files_def)

theorem index_error_witness:
  "fst (getitem ex_fs (ex_test None) () 1) = Inl IndexError \<and>
   fst (getitem ex_fs (ex_test None) () (- 2)) = Inl IndexError \<and>
   fst (getitem ex_fs (ex_test None) () 0) \<noteq> Inl IndexError \<and>
   fst (getitem ex_fs (ex_test None) () (- 1)) \<noteq> Inl IndexError"
  using index_error [of ex_fs "ex_test None" "()" 1]
        index_error [of ex_fs "ex_test None" "()" "- 2"]
        index_error [of ex_fs "ex_test None" "()" 0]
        index_error [of ex_fs "ex_test None" "()" "- 1"]
  by (simp add: ex_len)

text \<open>
  Claim C8, as stated, fails: on the dataset built from the example tree for the split
  \<open>test\<close>, of length 1, the index \<open>-1\<close> lies outside \<open>[0, 1)\<close>, and \<^verbatim>\<open>get(-1)\<close> returns
  the sample of the only path group instead of raising an \<open>IndexError\<close>.
\<close>

theorem index_error_counterexample:
  "fst (init no_fetch ex_world ''d'' ''test'' None False False) = Inr (ex_test None :: unit dataset) \<and>
   len (ex_test None :: unit dataset) = 1 \<and>
   \<not> (0 \<le> (- 1 :: int) \<and> (- 1 :: int) < len (ex_test None :: unit dataset)) \<and>
   fst (getitem ex_fs (ex_test None) () (- 1)) = Inr ex_sample_test \<and>
   fst (getitem ex_fs (ex_test None) () (- 1)) \<noteq> Inl IndexError"
  by (simp add: ex_init_test ex_len getitem_eq ex_getitem_sample_test) (simp add: ex_test_def)

theorem transform_hook_witness:
  "self_transforms (ex_test (Some count_calls)) = Some count_calls \<and>
   getitem ex_fs (ex_test (Some count_calls)) 0 0 = (Inr ex_sample_test, Suc 0) \<and>
   getitem ex_fs (ex_test (Some (\<lambda>h s. (s, h)))) (0 :: nat) 0 = getitem ex_fs (ex_test None) 0 0"
proof -
  have a: "self_transforms (ex_test (Some count_calls)) = Some count_calls"
    by (simp add: ex_test_def)
  have u: "(ex_test (Some count_calls))\<lparr>self_transforms := t\<rparr> = ex_test t" for t
    by (simp add: ex_test_def)
  have n: "getitem ex_fs (ex_test None) (0 :: nat) 0 = (Inr ex_sample_test, 0)"
    by (simp add: getitem_eq ex_getitem_sample_test) (simp add: ex_test_def)
  from transform_hook [OF a, of ex_fs 0 0] a n show ?thesis
    by (simp add: u count_calls_def)
qed

subsection \<open>Sample assembly\<close>

lemma init_constructed:
  assumes "init fetch w root_dir split transforms download_flag checksum = (Inr self, w')"
  shows "\<exists>vvs. self = \<lparr>self_root = root_dir, self_split = split, self_transforms = transforms,
                       self_checksum = checksum, self_files = map (group_of split) vvs\<rparr>"
proof -
  from assms obtain m where m: "metadata split = Some m"
    by (cases "metadata split") (auto simp: init_def split: if_splits)
  from assms show ?thesis
    by (auto simp: init_def Let_def load_files_eq [OF m] split: if_splits prod.splits sum.splits bool.splits)
qed

lemma load_image_shape: "load_image f p = Inr t \<Longrightarrow> \<exists>h w. shape t = [3, h, w]"
  by (auto simp: load_image_eq split: option.splits)

lemma load_target_shape: "load_target f p = Inr t \<Longrightarrow> \<exists>h w. shape t = [h, w]"
  by (auto simp: load_target_eq split: option.splits)

lemma getitem_sample_group:
  assumes "list_getitem (self_files self) i = Inr (group_of (self_split self) p)"
  shows "getitem_sample f self i = assemble f (self_split self) p"
proof (cases "self_split self = ''test''")
  case True
  then show ?thesis
    by (simp add: getitem_sample_def assemble_def assms dict_getitem_def group_of_vv group_of_vh
          group_of_water)
next
  case False
  then show ?thesis
    by (simp add: getitem_sample_def assemble_def assms dict_getitem_def group_of_vv group_of_vh
          group_of_water group_of_flood)
qed

lemma torch_cat_pair:
  "shape a = [3, h, w] \<Longrightarrow> shape b = [3, h', w'] \<Longrightarrow>
   torch_cat [a, b] =
     (if [h', w'] = [h, w] then Inr \<lparr>shape = [6, h, w], elems = elems a @ elems b\<rparr>
      else Inl RuntimeError)"
  by (simp add: torch_cat_def)

lemma torch_stack_pair:
  "torch_stack [a, b] =
     (if shape b = shape a then Inr \<lparr>shape = 2 # shape a, elems = elems a @ elems b\<rparr>
      else Inl RuntimeError)"
  by (simp add: torch_stack_def)

lemma bind_err_Inr_iff:
  "bind_err r f = Inr y \<longleftrightarrow> (\<exists>x. r = Inr x \<and> f x = Inr y)"
  by (cases r) simp_all

lemma assemble_error:
  "assemble f split p = Inl e \<Longrightarrow> e = DecodeFailure \<or> e = RuntimeError"
  by (auto simp: assemble_def bind_err_Inl_iff
        dest!: load_image_error load_target_error torch_stack_error torch_cat_error
        split: if_splits)

lemma assemble_test_sample:
  assumes "assemble f ''test'' p = Inr s"
  shows "\<exists>vv vh water h w.
           load_image f p = Inr vv \<and> load_image f (replace ''vv'' ''vh'' p) = Inr vh \<and>
           load_target f (water_mask_of p) = Inr water \<and>
           shape vv = [3, h, w] \<and> shape vh = [3, h, w] \<and>
           s = [''image'' \<mapsto> FloatTensor \<lparr>shape = [6, h, w], elems = elems vv @ elems vh\<rparr>,
                ''mask'' \<mapsto> LongTensor \<lparr>shape = 1 # shape water, elems = elems water\<rparr>]"
proof -
  from assms obtain vv vh water image where
    vv: "load_image f p = Inr vv" and vh: "load_image f (replace ''vv'' ''vh'' p) = Inr vh" and
    water: "load_target f (water_mask_of p) = Inr water" and
    image: "torch_cat [vv, vh] = Inr image" and
    s: "s = [''image'' \<mapsto> FloatTensor image, ''mask'' \<mapsto> LongTensor (unsqueeze_0 water)]"
    by (auto simp: assemble_def bind_err_Inr_iff)
  from load_image_shape [OF vv] obtain h w where svv: "shape vv = [3, h, w]" by blast
  from load_image_shape [OF vh] obtain h' w' where svh: "shape vh = [3, h', w']" by blast
  from image have eq: "[h', w'] = [h, w]"
    and i: "image = \<lparr>shape = [6, h, w], elems = elems vv @ elems vh\<rparr>"
    by (auto simp: torch_cat_pair [OF svv svh] split: if_splits)
  from vv vh water svv svh eq i s show ?thesis
    by (simp add: unsqueeze_0_def)
qed

lemma assemble_labelled_sample:
  assumes "assemble f split p = Inr s" and "split \<noteq> ''test''"
  shows "\<exists>vv vh water flood h w.
           load_image f p = Inr vv \<and> load_image f (replace ''vv'' ''vh'' p) = Inr vh \<and>
           load_target f (water_mask_of p) = Inr water \<and>
           load_target f (flood_mask_of p) = Inr flood \<and>
           shape vv = [3, h, w] \<and> shape vh = [3, h, w] \<and> shape flood = shape water \<and>
           s = [''image'' \<mapsto> FloatTensor \<lparr>shape = [6, h, w], elems = elems vv @ elems vh\<rparr>,
                ''mask'' \<mapsto> LongTensor \<lparr>shape = 2 # shape water,
                                          elems = elems water @ elems flood\<rparr>]"
proof -
  from assms obtain vv vh water flood mask image where
    vv: "load_image f p = Inr vv" and vh: "load_image f (replace ''vv'' ''vh'' p) = Inr vh" and
    water: "load_target f (water_mask_of p) = Inr water" and
    flood: "load_target f (flood_mask_of p) = Inr flood" and
    mask: "torch_stack [water, flood] = Inr mask" and
    image: "torch_cat [vv, vh] = Inr image" and
    s: "s = [''image'' \<mapsto> FloatTensor image, ''mask'' \<mapsto> LongTensor mask]"
    by (auto simp: assemble_def bind_err_Inr_iff)
  from load_image_shape [OF vv] obtain h w where svv: "shape vv = [3, h, w]" by blast
  from load_image_shape [OF vh] obtain h' w' where svh: "shape vh = [3, h', w']" by blast
  from image have eq: "[h', w'] = [h, w]"
    and i: "image = \<lparr>shape = [6, h, w], elems = elems vv @ elems vh\<rparr>"
    by (auto simp: torch_cat_pair [OF svv svh] split: if_splits)
  from mask have sf: "shape flood = shape water"
    and m: "mask = \<lparr>shape = 2 # shape water, elems = elems water @ elems flood\<rparr>"
    by (auto simp: torch_stack_pair split: if_splits)
  from vv vh water flood svv svh eq i sf m s show ?thesis
    by simp
qed

lemma assemble_returns:
  assumes "load_image f p = Inr vv" and "load_image f (replace ''vv'' ''vh'' p) = Inr vh"
    and "tl (shape vh) = tl (shape vv)"
    and "load_target f (water_mask_of p) = Inr water"
    and "split \<noteq> ''test'' \<longrightarrow>
           (\<exists>flood. load_target f (flood_mask_of p) = Inr flood \<and> shape flood = shape water)"
  shows "\<exists>s. assemble f split p = Inr s"
proof -
  from load_image_shape [OF assms(1)] obtain h w where svv: "shape vv = [3, h, w]" by blast
  from load_image_shape [OF assms(2)] obtain h' w' where svh: "shape vh = [3, h', w']" by blast
  from assms(3) svv svh have eq: "[h', w'] = [h, w]" by simp
  show ?thesis
  proof (cases "split = ''test''")
    case True
    with assms eq show ?thesis
      by (simp add: assemble_def torch_cat_pair [OF svv svh])
  next
    case False
    with assms(5) obtain flood where
      "load_target f (flood_mask_of p) = Inr flood" "shape flood = shape water" by blast
    with False assms eq show ?thesis
      by (simp add: assemble_def torch_cat_pair [OF svv svh] torch_stack_pair)
  qed
qed

lemma constructed_getitem:
  assumes "init fetch w root_dir split transforms download_flag checksum = (Inr self, w')"
    and "0 \<le> index" and "index < len self"
  shows "\<exists>p. list_getitem (self_files self) index = Inr (group_of split p) \<and>
             getitem_sample f self index = assemble f split p \<and>
             self_split self = split \<and> self_transforms self = transforms"
proof -
  from init_constructed [OF assms(1)] obtain vvs where
    self: "self = \<lparr>self_root = root_dir, self_split = split, self_transforms = transforms,
                   self_checksum = checksum, self_files = map (group_of split) vvs\<rparr>"
    by blast
  from assms(2,3) have l: "list_getitem (self_files self) index
                             = Inr (group_of split (vvs ! nat index))"
    by (simp add: list_getitem_in_range len_def self)
  have sp: "self_split self = split" by (simp add: self)
  from l have "getitem_sample f self index = assemble f split (vvs ! nat index)"
    using getitem_sample_group [of self index "vvs ! nat index" f] by (simp add: sp)
  with l sp show ?thesis by (auto simp: self)
qed

text \<open>
  Claim C1, as amended. For every dataset constructed without a transform hook and every
  index in \<open>[0, length())\<close>, the indexed path group holds the paths \<open>vv\<close>, \<open>vh\<close> and
  \<open>water_mask\<close>, and \<^verbatim>\<open>get(index)\<close> either fails with a decode failure or a shape
  mismatch, or returns a sample whose image has 6 channels (the three of \<open>vv\<close>, then the
  three of \<open>vh\<close>, channel first) and whose mask is the water mask under one leading plane
  for \<open>test\<close>, and the water plane followed by the flood plane for \<open>train\<close> and \<open>val\<close>.
  It does return a sample whenever the files decode, \<open>vv\<close> and \<open>vh\<close> to one height and
  width, and the two masks to one shape.
\<close>

theorem sample_shape:
  assumes "init fetch w root_dir split None download_flag checksum = (Inr self, w')"
    and "0 \<le> index" and "index < len self"
  shows "\<exists>g p_vv p_vh p_water.
           list_getitem (self_files self) index = Inr g \<and>
           g ''vv'' = Some p_vv \<and> g ''vh'' = Some p_vh \<and> g ''water_mask'' = Some p_water \<and>
           (case fst (getitem f self h index) of
              Inl e \<Rightarrow> e = DecodeFailure \<or> e = RuntimeError
            | Inr s \<Rightarrow>
                image_channels s = Some 6 \<and>
                mask_planes s = Some (if split = ''test'' then 1 else 2) \<and>
                (\<exists>vv vh water rows cols.
                   load_image f p_vv = Inr vv \<and> load_image f p_vh = Inr vh \<and>
                   load_target f p_water = Inr water \<and>
                   shape vv = [3, rows, cols] \<and> shape vh = [3, rows, cols] \<and>
                   s ''image'' = Some (FloatTensor \<lparr>shape = [6, rows, cols],
                                                     elems = elems vv @ elems vh\<rparr>) \<and>
                   (if split = ''test''
                    then s ''mask'' = Some (LongTensor \<lparr>shape = 1 # shape water,
                                                        elems = elems water\<rparr>)
                    else \<exists>p_flood flood.
                           g ''flood_mask'' = Some p_flood \<and> load_target f p_flood = Inr flood \<and>
                           s ''mask'' = Some (LongTensor \<lparr>shape = 2 # shape water,
                                                          elems = elems water @ elems flood\<rparr>)))) \<and>
           (\<forall>vv vh water.
              load_image f p_vv = Inr vv \<and> load_image f p_vh = Inr vh \<and>
              tl (shape vh) = tl (shape vv) \<and> load_target f p_water = Inr water \<and>
              (split \<noteq> ''test'' \<longrightarrow>
                 (\<exists>p_flood flood. g ''flood_mask'' = Some p_flood \<and>
                    load_target f p_flood = Inr flood \<and> shape flood = shape water))
              \<longrightarrow> (\<exists>s. fst (getitem f self h index) = Inr s))"
proof -
  from constructed_getitem [OF assms, of f] obtain p where
    l: "list_getitem (self_files self) index = Inr (group_of split p)" and
    a: "getitem_sample f self index = assemble f split p" and
    t: "self_transforms self = None"
    by blast
  have g: "fst (getitem f self h index) = assemble f split p"
    by (simp add: getitem_eq a t split: sum.splits)
  have 1: "case assemble f split p of
              Inl e \<Rightarrow> e = DecodeFailure \<or> e = RuntimeError
            | Inr s \<Rightarrow>
                image_channels s = Some 6 \<and>
                mask_planes s = Some (if split = ''test'' then 1 else 2) \<and>
                (\<exists>vv vh water rows cols.
                   load_image f p = Inr vv \<and> load_image f (replace ''vv'' ''vh'' p) = Inr vh \<and>
                   load_target f (water_mask_of p) = Inr water \<and>
                   shape vv = [3, rows, cols] \<and> shape vh = [3, rows, cols] \<and>
                   s ''image'' = Some (FloatTensor \<lparr>shape = [6, rows, cols],
                                                     elems = elems vv @ elems vh\<rparr>) \<and>
                   (if split = ''test''
                    then s ''mask'' = Some (LongTensor \<lparr>shape = 1 # shape water,
                                                        elems = elems water\<rparr>)
                    else \<exists>p_flood flood.
                           group_of split p ''flood_mask'' = Some p_flood \<and>
                           load_target f p_flood = Inr flood \<and>
                           s ''mask'' = Some (LongTensor \<lparr>shape = 2 # shape water,
                                                          elems = elems water @ elems flood\<rparr>)))"
  proof (cases "assemble f split p")
    case (Inl e)
    then show ?thesis using assemble_error [of f split p e] by simp
  next
    case (Inr s)
    show ?thesis
    proof (cases "split = ''test''")
      case True
      from assemble_test_sample [of f p s] Inr True show ?thesis
        by (auto simp: image_channels_def mask_planes_def)
    next
      case False
      from assemble_labelled_sample [OF _ False, of f p s] Inr False show ?thesis
        by (auto simp: image_channels_def mask_planes_def group_of_flood)
    qed
  qed
  have 2: "\<forall>vv vh water.
              load_image f p = Inr vv \<and> load_image f (replace ''vv'' ''vh'' p) = Inr vh \<and>
              tl (shape vh) = tl (shape vv) \<and> load_target f (water_mask_of p) = Inr water \<and>
              (split \<noteq> ''test'' \<longrightarrow>
                 (\<exists>p_flood flood. group_of split p ''flood_mask'' = Some p_flood \<and>
                    load_target f p_flood = Inr flood \<and> shape flood = shape water))
              \<longrightarrow> (\<exists>s. assemble f split p = Inr s)"
  proof (intro allI impI)
    fix vv vh water
    assume h: "load_image f p = Inr vv \<and> load_image f (replace ''vv'' ''vh'' p) = Inr vh \<and>
              tl (shape vh) = tl (shape vv) \<and> load_target f (water_mask_of p) = Inr water \<and>
              (split \<noteq> ''test'' \<longrightarrow>
                 (\<exists>p_flood flood. group_of split p ''flood_mask'' = Some p_flood \<and>
                    load_target f p_flood = Inr flood \<and> shape flood = shape water))"
    then have fl: "split \<noteq> ''test'' \<longrightarrow>
           (\<exists>flood. load_target f (flood_mask_of p) = Inr flood \<and> shape flood = shape water)"
      by (auto simp: group_of_flood)
    from h show "\<exists>s. assemble f split p = Inr s"
      by (intro assemble_returns [of f p vv vh water split] fl) simp_all
  qed
  note parts = l group_of_vv [of split p] group_of_vh [of split p] group_of_water [of split p] 1 2
  show ?thesis
    unfolding g
    by (rule exI [of _ "group_of split p"], rule exI [of _ p],
        rule exI [of _ "replace ''vv'' ''vh'' p"], rule exI [of _ "water_mask_of p"])
       (intro conjI parts)
qed

theorem sample_shape_witness:
  "init no_fetch ex_world ''d'' ''train'' None False False =
     (Inr (ex_train None :: unit dataset),
      ex_world\<lparr>trace := [Exists ''d/train'', Glob ''d/train/*'',
                          Glob ''d/train/a/tiles/vv/*.png'', Glob ''d/train/b/tiles/vv/*.png'']\<rparr>) \<and>
   (0 :: int) \<le> 0 \<and> 0 < len (ex_train None :: unit dataset) \<and>
   fst (getitem ex_fs (ex_train None) () 0) = Inr ex_sample_train \<and>
   image_channels ex_sample_train = Some 6 \<and> mask_planes ex_sample_train = Some 2"
proof -
  have i: "init no_fetch ex_world ''d'' ''train'' None False False =
     (Inr (ex_train None :: unit dataset),
      ex_world\<lparr>trace := [Exists ''d/train'', Glob ''d/train/*'',
                          Glob ''d/train/a/tiles/vv/*.png'', Glob ''d/train/b/tiles/vv/*.png'']\<rparr>)"
    by (rule ex_init_train)
  have a: "(0 :: int) \<le> 0" by simp
  have b: "0 < len (ex_train None :: unit dataset)" by (simp add: ex_len)
  have s: "fst (getitem ex_fs (ex_train None) () 0) = Inr ex_sample_train"
    by (simp add: getitem_eq ex_getitem_sample_train) (simp add: ex_train_def)
  from sample_shape [OF i a b, of ex_fs "()"] s
  have "image_channels ex_sample_train = Some 6 \<and> mask_planes ex_sample_train = Some 2"
    by auto
  with i a b s show ?thesis by blast
qed

text \<open>
  Claim C1, as stated, fails in two ways. On the dataset built from the example tree for
  the split \<open>train\<close>, the index 1 lies in \<open>[0, 3)\<close> and \<^verbatim>\<open>get(1)\<close> returns no sample:
  the \<open>vh\<close> file of that tile cannot be read, and the decode failure comes out of
  \<^verbatim>\<open>get\<close>. And on the same tree, with a hook that drops the image, \<^verbatim>\<open>get(0)\<close>
  returns what the hook returns, a sample without an image of 6 channels.
\<close>

theorem sample_shape_counterexample:
  "fst (init no_fetch ex_world ''d'' ''train'' None False False)
     = Inr (ex_train None :: unit dataset) \<and>
   len (ex_train None :: unit dataset) = 3 \<and>
   fst (getitem ex_fs (ex_train None) () 1) = Inl DecodeFailure \<and>
   fst (init no_fetch ex_world ''d'' ''train'' (Some drop_image) False False)
     = Inr (ex_train (Some drop_image)) \<and>
   fst (getitem ex_fs (ex_train (Some drop_image)) () 0) = Inr (ex_sample_train(''image'' := None)) \<and>
   image_channels (ex_sample_train(''image'' := None)) \<noteq> Some 6"
proof -
  have 1: "fst (getitem ex_fs (ex_train None) () 1) = Inl DecodeFailure"
    by (simp add: getitem_eq ex_getitem_sample_train)
  have 2: "fst (getitem ex_fs (ex_train (Some drop_image)) () 0)
             = Inr (ex_sample_train(''image'' := None))"
    by (simp add: getitem_eq ex_getitem_sample_train) (simp add: ex_train_def drop_image_def)
  have 3: "image_channels (ex_sample_train(''image'' := None)) \<noteq> Some 6"
    by (simp add: image_channels_def)
  from 1 2 3 show ?thesis
    by (simp add: ex_init_train ex_len)
qed

subsection \<open>Negative indices\<close>

lemma ex_assemble_train:
  "assemble ex_fs ''train'' ''d/train/a/tiles/vv/0_vv.png'' = Inr ex_sample_train"
  "assemble ex_fs ''train'' ''d/train/a/tiles/vv/1_vv.png'' = Inl DecodeFailure"
  by (simp_all add: assemble_def water_mask_of_def flood_mask_of_def ex_load_image ex_load_target
        torch_cat_def torch_stack_def ex_sample_train_def)
    (simp_all add: numeral_2_eq_2)

text \<open>
  Claim C10. For a constructed dataset of length \<open>n\<close> and an index in \<open>[-n, -1]\<close> (so
  \<open>n > 0\<close>), \<^verbatim>\<open>get(index)\<close> raises no \<open>IndexError\<close>: the list subscript yields the path
  group at position \<open>n + index\<close>, and \<^verbatim>\<open>get(index)\<close> is the sample assembled from the
  files of that group (its \<open>vv\<close> path \<open>p\<close> and the companion paths derived from \<open>p\<close>),
  handed to the hook if there is one; it is what \<^verbatim>\<open>get(n + index)\<close> is.
\<close>

theorem negative_index:
  assumes "init fetch w root_dir split transforms download_flag checksum = (Inr self, w')"
    and "- len self \<le> index" and "index \<le> -1"
  shows "0 < len self \<and>
         list_getitem (self_files self) index = Inr (self_files self ! nat (len self + index)) \<and>
         (\<exists>p. (self_files self ! nat (len self + index)) ''vv'' = Some p \<and>
              (self_files self ! nat (len self + index)) ''vh'' = Some (replace ''vv'' ''vh'' p) \<and>
              (self_files self ! nat (len self + index)) ''water_mask'' = Some (water_mask_of p) \<and>
              (self_files self ! nat (len self + index)) ''flood_mask'' =
                (if split \<noteq> ''test'' then Some (flood_mask_of p) else None) \<and>
              getitem_sample f self index = assemble f split p \<and>
              getitem f self h index =
                (case assemble f split p of
                   Inl e \<Rightarrow> (Inl e, h)
                 | Inr s \<Rightarrow> (case transforms of
                                None \<Rightarrow> (Inr s, h)
                              | Some t \<Rightarrow> (Inr (fst (t h s)), snd (t h s))))) \<and>
         getitem f self h index = getitem f self h (len self + index) \<and>
         fst (getitem f self h index) \<noteq> Inl IndexError"
proof -
  from init_constructed [OF assms(1)] obtain vvs where
    self: "self = \<lparr>self_root = root_dir, self_split = split, self_transforms = transforms,
                   self_checksum = checksum, self_files = map (group_of split) vvs\<rparr>"
    by blast
  let ?k = "nat (len self + index)"
  from assms(2,3) have n: "0 < len self" by simp
  from assms(3) have neg: "index < 0" by simp
  have a: "list_getitem (self_files self) index = Inr (self_files self ! ?k)"
    using assms(2) neg unfolding len_def by (rule list_getitem_negative)
  have r: "0 \<le> len self + index" "len self + index < int (length (self_files self))"
    using assms(2) neg by (simp_all add: len_def)
  then have b: "list_getitem (self_files self) (len self + index) = Inr (self_files self ! ?k)"
    by (rule list_getitem_in_range)
  from r have k: "?k < length vvs"
    by (simp add: self len_def)
  then have g: "self_files self ! ?k = group_of split (vvs ! ?k)"
    by (simp add: self)
  have sp: "self_split self = split" and tr: "self_transforms self = transforms"
    by (simp_all add: self)
  have s: "getitem_sample f self index = assemble f split (vvs ! ?k)"
    using getitem_sample_group [of self index "vvs ! ?k" f] a g by (simp add: sp)
  have e: "getitem f self h index =
             (case assemble f split (vvs ! ?k) of
                Inl e \<Rightarrow> (Inl e, h)
              | Inr s \<Rightarrow> (case transforms of
                             None \<Rightarrow> (Inr s, h)
                           | Some t \<Rightarrow> (Inr (fst (t h s)), snd (t h s))))"
    unfolding getitem_eq s tr by (rule refl)
  have c: "getitem_sample f self index = getitem_sample f self (len self + index)"
    by (rule getitem_sample_index_cong) (simp add: a b)
  have d: "fst (getitem f self h index) \<noteq> Inl IndexError"
    by (simp add: fst_getitem_Inl getitem_sample_IndexError a)
  have q: "getitem f self h index = getitem f self h (len self + index)"
    by (simp add: getitem_eq c)
  have p: "\<exists>p. (self_files self ! ?k) ''vv'' = Some p \<and>
              (self_files self ! ?k) ''vh'' = Some (replace ''vv'' ''vh'' p) \<and>
              (self_files self ! ?k) ''water_mask'' = Some (water_mask_of p) \<and>
              (self_files self ! ?k) ''flood_mask'' =
                (if split \<noteq> ''test'' then Some (flood_mask_of p) else None) \<and>
              getitem_sample f self index = assemble f split p \<and>
              getitem f self h index =
                (case assemble f split p of
                   Inl e \<Rightarrow> (Inl e, h)
                 | Inr s \<Rightarrow> (case transforms of
                                None \<Rightarrow> (Inr s, h)
                              | Some t \<Rightarrow> (Inr (fst (t h s)), snd (t h s))))"
    unfolding g
    by (rule exI [of _ "vvs ! ?k"])
       (intro conjI group_of_vv group_of_vh group_of_water group_of_flood s e)
  from n a p q d show ?thesis
    by (intro conjI)
qed

theorem negative_index_witness:
  "init no_fetch ex_world ''d'' ''train'' None False False =
     (Inr (ex_train None :: unit dataset),
      ex_world\<lparr>trace := [Exists ''d/train'', Glob ''d/train/*'',
                          Glob ''d/train/a/tiles/vv/*.png'', Glob ''d/train/b/tiles/vv/*.png'']\<rparr>) \<and>
   - len (ex_train None :: unit dataset) \<le> - 3 \<and> (- 3 :: int) \<le> - 1 \<and>
   - len (ex_train None :: unit dataset) \<le> - 2 \<and> (- 2 :: int) \<le> - 1 \<and>
   (self_files (ex_train None :: unit dataset) ! 0) ''vv'' = Some ''d/train/a/tiles/vv/0_vv.png'' \<and>
   (self_files (ex_train None :: unit dataset) ! 1) ''vv'' = Some ''d/train/a/tiles/vv/1_vv.png'' \<and>
   getitem ex_fs (ex_train None) () (- 3) = (Inr ex_sample_train, ()) \<and>
   getitem ex_fs (ex_train None) () (- 2) = (Inl DecodeFailure, ())"
proof -
  have i: "init no_fetch ex_world ''d'' ''train'' None False False =
     (Inr (ex_train None :: unit dataset),
      ex_world\<lparr>trace := [Exists ''d/train'', Glob ''d/train/*'',
                          Glob ''d/train/a/tiles/vv/*.png'', Glob ''d/train/b/tiles/vv/*.png'']\<rparr>)"
    by (rule ex_init_train)
  have a3: "- len (ex_train None :: unit dataset) \<le> - 3" and b3: "(- 3 :: int) \<le> - 1"
    and a2: "- len (ex_train None :: unit dataset) \<le> - 2" and b2: "(- 2 :: int) \<le> - 1"
    by (simp_all add: ex_len)
  have v0: "(self_files (ex_train None :: unit dataset) ! 0) ''vv'' = Some ''d/train/a/tiles/vv/0_vv.png''"
    and v1: "(self_files (ex_train None :: unit dataset) ! 1) ''vv'' = Some ''d/train/a/tiles/vv/1_vv.png''"
    by (simp_all add: ex_train_def ex_train_files_def)
  have k: "nat (len (ex_train None :: unit dataset) + - 3) = 0"
          "nat (len (ex_train None :: unit dataset) + - 2) = 1"
    by (simp_all add: ex_len)
  from negative_index [OF i a3 b3, of ex_fs "()"] v0
  have g3: "getitem ex_fs (ex_train None) () (- 3) = (Inr ex_sample_train, ())"
    unfolding k by (auto simp: ex_assemble_train)
  from negative_index [OF i a2 b2, of ex_fs "()"] v1
  have g2: "getitem ex_fs (ex_train None) () (- 2) = (Inl DecodeFailure, ())"
    unfolding k by (auto simp: ex_assemble_train)
  from i a3 b3 a2 b2 v0 v1 g3 g2 show ?thesis
    by (intro conjI)
qed

subsection \<open>Companion files that cannot be read\<close>

lemma assemble_decode_failure:
  assumes "load_image f p = Inl DecodeFailure \<or>
           load_image f (replace ''vv'' ''vh'' p) = Inl DecodeFailure \<or>
           load_target f (water_mask_of p) = Inl DecodeFailure \<or>
           (split \<noteq> ''test'' \<and> load_target f (flood_mask_of p) = Inl DecodeFailure)"
  shows "assemble f split p = Inl DecodeFailure"
proof -
  have a: "load_image f q = Inl DecodeFailure \<or> (\<exists>t. load_image f q = Inr t)" for q
    by (cases "load_image f q") (auto dest: load_image_error)
  have b: "load_target f q = Inl DecodeFailure \<or> (\<exists>t. load_target f q = Inr t)" for q
    by (cases "load_target f q") (auto dest: load_target_error)
  from assms a [of p] a [of "replace ''vv'' ''vh'' p"] b [of "water_mask_of p"]
  show ?thesis
    by (auto simp: assemble_def)
qed

lemma read_rgb_None: "fs_read_rgb f p = None \<Longrightarrow> load_image f p = Inl DecodeFailure"
  by (simp add: load_image_eq)

lemma read_grey_None: "fs_read_grey f p = None \<Longrightarrow> load_target f p = Inl DecodeFailure"
  by (simp add: load_target_eq)

text \<open>
  Claim C9. File discovery never checks that the companion files exist. For a valid
  split it succeeds on every world, with one path group per discovered \<open>vv\<close> file, in
  order; the only calls it makes are calls of \<^verbatim>\<open>glob.glob\<close>, and it leaves the file
  system as it was; its result is the same on every file system with the same \<^verbatim>\<open>glob\<close>
  results, whatever exists or can be read there. A companion file that cannot be read
  shows later: \<^verbatim>\<open>get(index)\<close> on such a group fails with a decode failure.
\<close>

theorem discovery_no_companion_check:
  assumes "metadata split = Some m"
  shows "\<exists>files w'.
           load_files w root_dir split = (Inr files, w') \<and>
           map (\<lambda>g. g ''vv'') files = map Some (discovered_vvs (fsys w) root_dir (directory m)) \<and>
           fsys w' = fsys w \<and>
           (\<exists>evs. trace w' = trace w @ evs \<and> (\<forall>e \<in> set evs. \<exists>p. e = Glob p)) \<and>
           (\<forall>w2 :: world. fs_glob (fsys w2) = fs_glob (fsys w) \<longrightarrow>
                 fst (load_files w2 root_dir split) = Inr files) \<and>
           (\<forall>f self h index g p.
              list_getitem (self_files self) index = Inr g \<and> g \<in> set files \<and>
              self_split self = split \<and>
              (g ''vh'' = Some p \<and> fs_read_rgb f p = None \<or>
               g ''water_mask'' = Some p \<and> fs_read_grey f p = None \<or>
               split \<noteq> ''test'' \<and> g ''flood_mask'' = Some p \<and> fs_read_grey f p = None)
              \<longrightarrow> fst (getitem f self h index) = Inl DecodeFailure)"
proof -
  let ?vvs = "discovered_vvs (fsys w) root_dir (directory m)"
  let ?files = "map (group_of split) ?vvs"
  let ?evs = "Glob (os_path_join root_dir [directory m, ''*''])
               # map (\<lambda>folder. Glob (os_path_join folder [''vv'', ''*.png'']))
                   (tiles_folders (fsys w) root_dir (directory m))"
  let ?w' = "w\<lparr>trace := trace w @ ?evs\<rparr>"
  have 1: "load_files w root_dir split = (Inr ?files, ?w')"
    by (rule load_files_eq [OF assms])
  have 2: "map (\<lambda>g. g ''vv'') ?files = map Some ?vvs"
    by (simp add: comp_def group_of_vv)
  have 3: "fsys ?w' = fsys w"
    by simp
  have 4: "\<exists>evs. trace ?w' = trace w @ evs \<and> (\<forall>e \<in> set evs. \<exists>p. e = Glob p)"
    by (rule exI [of _ ?evs]) auto
  have 5: "\<forall>w2 :: world. fs_glob (fsys w2) = fs_glob (fsys w) \<longrightarrow>
                 fst (load_files w2 root_dir split) = Inr ?files"
  proof (intro allI impI)
    fix w2 :: world
    assume "fs_glob (fsys w2) = fs_glob (fsys w)"
    then have "\<forall>p. mset (fs_glob (fsys w2) p) = mset (fs_glob (fsys w) p)"
      by simp
    from fst_load_files_cong [OF this, of root_dir split] 1
    show "fst (load_files w2 root_dir split) = Inr ?files"
      by simp
  qed
  have 6: "\<forall>f self h index g p.
              list_getitem (self_files self) index = Inr g \<and> g \<in> set ?files \<and>
              self_split self = split \<and>
              (g ''vh'' = Some p \<and> fs_read_rgb f p = None \<or>
               g ''water_mask'' = Some p \<and> fs_read_grey f p = None \<or>
               split \<noteq> ''test'' \<and> g ''flood_mask'' = Some p \<and> fs_read_grey f p = None)
              \<longrightarrow> fst (getitem f (self :: 'h dataset) h index) = Inl DecodeFailure"
  proof (intro allI impI)
    fix f :: fs and self :: "'h dataset" and h :: 'h and index g p
    assume h: "list_getitem (self_files self) index = Inr g \<and> g \<in> set ?files \<and>
              self_split self = split \<and>
              (g ''vh'' = Some p \<and> fs_read_rgb f p = None \<or>
               g ''water_mask'' = Some p \<and> fs_read_grey f p = None \<or>
               split \<noteq> ''test'' \<and> g ''flood_mask'' = Some p \<and> fs_read_grey f p = None)"
    then obtain vv where g: "g = group_of split vv"
      by auto
    from h g have a: "getitem_sample f self index = assemble f split vv"
      using getitem_sample_group [of self index vv f] by simp
    from h have "load_image f (replace ''vv'' ''vh'' vv) = Inl DecodeFailure \<or>
           load_target f (water_mask_of vv) = Inl DecodeFailure \<or>
           (split \<noteq> ''test'' \<and> load_target f (flood_mask_of vv) = Inl DecodeFailure)"
      unfolding g group_of_vh group_of_water group_of_flood
      by (auto dest: read_rgb_None read_grey_None split: if_splits)
    then have "assemble f split vv = Inl DecodeFailure"
      by (intro assemble_decode_failure) blast
    with a show "fst (getitem f self h index) = Inl DecodeFailure"
      by (simp add: fst_getitem_Inl)
  qed
  show ?thesis
    by (rule exI [of _ ?files], rule exI [of _ ?w']) (intro conjI 1 2 3 4 5 6)
qed

theorem discovery_no_companion_check_witness:
  "metadata ''train'' =
     Some \<lparr>filename = ''train.zip'', md5 = ''1e95792fe0f6e3c9000abdeab2a8ab0f'',
           directory = ''train'',
           url = ''https://drive.google.com/file/d/14HqNW5uWLS92n7KrxKgDwUTsSEST6LCr''\<rparr> \<and>
   load_files ex_world ''d'' ''train'' =
     (Inr ex_train_files,
      ex_world\<lparr>trace := [Glob ''d/train/*'', Glob ''d/train/a/tiles/vv/*.png'',
                          Glob ''d/train/b/tiles/vv/*.png'']\<rparr>) \<and>
   (ex_train_files ! 1) ''vh'' = Some ''d/train/a/tiles/vh/1_vh.png'' \<and>
   fs_read_rgb ex_fs ''d/train/a/tiles/vh/1_vh.png'' = None \<and>
   fst (getitem ex_fs (ex_train None) () 1) = Inl DecodeFailure"
proof -
  from discovery_no_companion_check [OF metadata_train, of ex_world "''d''"]
  obtain files w' where
    big: "load_files ex_world ''d'' ''train'' = (Inr files, w') \<and>
      map (\<lambda>g. g ''vv'') files = map Some (discovered_vvs (fsys ex_world) ''d''
        (directory \<lparr>filename = ''train.zip'', md5 = ''1e95792fe0f6e3c9000abdeab2a8ab0f'',
           directory = ''train'',
           url = ''https://drive.google.com/file/d/14HqNW5uWLS92n7KrxKgDwUTsSEST6LCr''\<rparr>)) \<and>
      fsys w' = fsys ex_world \<and>
      (\<exists>evs. trace w' = trace ex_world @ evs \<and> (\<forall>e \<in> set evs. \<exists>p. e = Glob p)) \<and>
      (\<forall>w2 :: world. fs_glob (fsys w2) = fs_glob (fsys ex_world) \<longrightarrow>
            fst (load_files w2 ''d'' ''train'') = Inr files) \<and>
      (\<forall>f (self :: unit dataset) h index g p.
          list_getitem (self_files self) index = Inr g \<and> g \<in> set files \<and>
          self_split self = ''train'' \<and>
          (g ''vh'' = Some p \<and> fs_read_rgb f p = None \<or>
           g ''water_mask'' = Some p \<and> fs_read_grey f p = None \<or>
           ''train'' \<noteq> ''test'' \<and> g ''flood_mask'' = Some p \<and> fs_read_grey f p = None)
          \<longrightarrow> fst (getitem f self h index) = Inl DecodeFailure)"
    by (elim exE) (rule that)
  note l = big [THEN conjunct1]
  note d = big [THEN conjunct2, THEN conjunct2, THEN conjunct2, THEN conjunct2, THEN conjunct2,
                rule_format]
  from l have files: "files = ex_train_files"
    by (simp add: ex_load_files_train)
  have a: "list_getitem (self_files (ex_train None :: unit dataset)) 1 = Inr (ex_train_files ! 1)"
    by (simp add: list_getitem_def ex_train_def ex_train_files_def)
  have b: "ex_train_files ! 1 \<in> set files"
    by (simp add: files) (simp add: ex_train_files_def)
  have c: "self_split (ex_train None :: unit dataset) = ''train''"
    by (simp add: ex_train_def)
  have v: "(ex_train_files ! 1) ''vh'' = Some ''d/train/a/tiles/vh/1_vh.png''"
    by (simp add: ex_train_files_def)
  have r: "fs_read_rgb ex_fs ''d/train/a/tiles/vh/1_vh.png'' = None"
    by (simp add: ex_fs_def)
  have "fst (getitem ex_fs (ex_train None) () 1) = Inl DecodeFailure"
    by (rule d [of "ex_train None" 1 "ex_train_files ! 1" "''d/train/a/tiles/vh/1_vh.png''" ex_fs "()"])
       (intro conjI a b c disjI1 v r)
  with v r show ?thesis
    by (simp add: metadata_train ex_load_files_train)
qed

end
